theory Spec2Isabelle
  imports Main "HOL-Library.Word" "HOL-Library.Multiset"
begin

unbundle bit_operations_syntax

section \<open>Data model\<close>

text \<open>
  The credential generator of \<^verbatim>\<open>src/tools/credential-generator.ts\<close> and the tool
  handlers that call it. Strings are lists of 8-bit characters; every string the
  generators build from their built-in alphabets is ASCII. Numbers that the source
  uses as lengths and counts are natural numbers (the tool schemas admit only
  non-negative integers there).

  Two things the source computes are kept symbolic. \<^verbatim>\<open>calculateEntropy\<close> is
  \<^verbatim>\<open>Math.floor(Math.log2(Math.pow(charsetSize, length)))\<close>, a floating-point
  computation: a metadata entry that holds its result is the unevaluated call
  \<open>CalculateEntropy charsetSize length\<close>, and a security level chosen by comparing
  such a result is the unevaluated choice \<open>IfEntropyGe\<close>. The metadata field
  \<^verbatim>\<open>generated_at\<close> is the wall-clock time of the call and is left out.

  The fields of a result carry the prefix \<open>r_\<close> and those of its metadata the prefix
  \<open>m_\<close>; the metadata entries that only some generators write (\<^verbatim>\<open>byte_size\<close>,
  \<^verbatim>\<open>format\<close>, \<^verbatim>\<open>word_count\<close>, \<^verbatim>\<open>separator\<close>, \<^verbatim>\<open>dictionary_size\<close>) are the
  list \<open>m_extra\<close>.
\<close>

type_synonym byte = "8 word"

datatype entropy = Bits nat | CalculateEntropy nat nat

datatype level = Level string | IfEntropyGe entropy nat level level

datatype extra = ExNum nat | ExStr string

record metadata =
  m_type :: string
  m_length :: nat
  m_algorithm :: string
  m_entropy_bits :: entropy
  m_charset :: "string option"
  m_security_level :: level
  m_extra :: "(string \<times> extra) list"

record GenerationResult =
  r_value :: string
  r_name :: string
  r_description :: string
  r_metadata :: metadata

section \<open>Core utility functions\<close>

text \<open>
  The secure byte source is a stream \<open>rnd\<close> of bytes read at a position: a call of
  \<^verbatim>\<open>getSecureRandomBytes(n)\<close> returns the next \<open>n\<close> bytes and advances the
  position by \<open>n\<close>. A generator takes the stream and the position and returns its
  result with the new position, so the bytes a call has drawn are the difference of
  the two positions.

  The platform call behind it, \<^verbatim>\<open>crypto.getRandomValues\<close>, refuses an array of more
  than 65536 bytes and throws a \<^verbatim>\<open>QuotaExceededError\<close>. \<open>getSecureRandomBytes\<close> gives
  the bytes of a call that is not refused, and \<open>getSecureRandomBytes_checked\<close> is the
  call with the refusal. The generators that draw a fixed number of bytes, or one or
  two bytes at a time, are never refused. \<^verbatim>\<open>generateHexString\<close>, whose property below
  is about every length, is modelled with the refusal; the other generators that draw
  as many bytes as the caller asks for are modelled for the requests that are not
  refused.
\<close>

definition getSecureRandomBytes :: "(nat \<Rightarrow> byte) \<Rightarrow> nat \<Rightarrow> nat \<Rightarrow> byte list \<times> nat" where
  "getSecureRandomBytes rnd pos n = (map rnd [pos..<pos + n], pos + n)"



definition CHARSETS_uppercase :: string where
  "CHARSETS_uppercase = ''ABCDEFGHIJKLMNOPQRSTUVWXYZ''"

definition CHARSETS_lowercase :: string where
  "CHARSETS_lowercase = ''abcdefghijklmnopqrstuvwxyz''"

definition CHARSETS_numbers :: string where
  "CHARSETS_numbers = ''0123456789''"

definition CHARSETS_special_safe :: string where
  "CHARSETS_special_safe = ''!@#$%^&*_+-=''"

definition CHARSETS_alphanumeric :: string where
  "CHARSETS_alphanumeric = ''ABCDEFGHIJKLMNOPQRSTUVWXYZabcdefghijklmnopqrstuvwxyz0123456789''"

definition CHARSETS_url_safe :: string where
  "CHARSETS_url_safe = ''ABCDEFGHIJKLMNOPQRSTUVWXYZabcdefghijklmnopqrstuvwxyz0123456789-_''"

definition hex_lower :: string where
  "hex_lower = ''0123456789abcdef''"

text \<open>\<^verbatim>\<open>byte.toString(16)\<close> of a byte: one digit below 16, two digits from 16 on.\<close>

definition toString16 :: "byte \<Rightarrow> string" where
  "toString16 b =
     (if unat b < 16 then [hex_lower ! unat b]
      else [hex_lower ! (unat b div 16), hex_lower ! (unat b mod 16)])"

definition padStart :: "nat \<Rightarrow> char \<Rightarrow> string \<Rightarrow> string" where
  "padStart n c s = replicate (n - length s) c @ s"

definition bytesToHex :: "byte list \<Rightarrow> string" where
  "bytesToHex bytes = concat (map (\<lambda>b. padStart 2 (CHR ''0'') (toString16 b)) bytes)"

text \<open>
  \<^verbatim>\<open>btoa(String.fromCharCode(...bytes))\<close>: the standard base64 encoding with
  \<^verbatim>\<open>=\<close> padding, three bytes to four characters.
\<close>

definition base64_alphabet :: string where
  "base64_alphabet = ''ABCDEFGHIJKLMNOPQRSTUVWXYZabcdefghijklmnopqrstuvwxyz0123456789+/''"

fun bytesToBase64 :: "byte list \<Rightarrow> string" where
  "bytesToBase64 [] = []"
| "bytesToBase64 [a] =
     [base64_alphabet ! (unat a div 4), base64_alphabet ! ((unat a mod 4) * 16),
      CHR ''='', CHR ''='']"
| "bytesToBase64 [a, b] =
     [base64_alphabet ! (unat a div 4),
      base64_alphabet ! ((unat a mod 4) * 16 + unat b div 16),
      base64_alphabet ! ((unat b mod 16) * 4), CHR ''='']"
| "bytesToBase64 (a # b # c # rest) =
     [base64_alphabet ! (unat a div 4),
      base64_alphabet ! ((unat a mod 4) * 16 + unat b div 16),
      base64_alphabet ! ((unat b mod 16) * 4 + unat c div 64),
      base64_alphabet ! (unat c mod 64)] @ bytesToBase64 rest"

definition bytesToBase64Url :: "byte list \<Rightarrow> string" where
  "bytesToBase64Url bytes =
     filter (\<lambda>c. c \<noteq> CHR ''='')
       (map (\<lambda>c. if c = CHR ''/'' then CHR ''_'' else c)
         (map (\<lambda>c. if c = CHR ''+'' then CHR ''-'' else c) (bytesToBase64 bytes)))"

text \<open>
  \<^verbatim>\<open>toUpperCase\<close> and \<^verbatim>\<open>toLowerCase\<close> on the ASCII letters; any other
  character is left as it is.
\<close>

definition toUpperCase :: "string \<Rightarrow> string" where
  "toUpperCase s =
     map (\<lambda>c. if 97 \<le> (of_char c :: nat) \<and> (of_char c :: nat) \<le> 122
              then char_of ((of_char c :: nat) - 32) else c) s"

definition toLowerCase :: "string \<Rightarrow> string" where
  "toLowerCase s =
     map (\<lambda>c. if 65 \<le> (of_char c :: nat) \<and> (of_char c :: nat) \<le> 90
              then char_of ((of_char c :: nat) + 32) else c) s"

datatype case_option = Upper | Lower | Mixed

fun applyCase :: "string \<Rightarrow> case_option option \<Rightarrow> string" where
  "applyCase str (Some Upper) = toUpperCase str"
| "applyCase str (Some Lower) = toLowerCase str"
| "applyCase str _ = str"

text \<open>\<^verbatim>\<open>x || d\<close> on an optional string: absent and empty both give the default.\<close>

fun or_string :: "string option \<Rightarrow> string \<Rightarrow> string" where
  "or_string None d = d"
| "or_string (Some s) d = (if s = [] then d else s)"

text \<open>\<^verbatim>\<open>x || d\<close> on an optional number: absent and 0 both give the default.\<close>

fun or_number :: "nat option \<Rightarrow> nat \<Rightarrow> nat" where
  "or_number None d = d"
| "or_number (Some n) d = (if n = 0 then d else n)"

text \<open>A default parameter or destructuring default: used only when the value is absent.\<close>

fun default_to :: "'a \<Rightarrow> 'a option \<Rightarrow> 'a" where
  "default_to d None = d"
| "default_to d (Some v) = v"

definition addAffixes :: "string \<Rightarrow> string option \<Rightarrow> string option \<Rightarrow> string" where
  "addAffixes val pre suf = or_string pre [] @ val @ or_string suf []"

text \<open>\<^verbatim>\<open>s.slice(a, b)\<close> for indices \<open>0 \<le> a \<le> b\<close>; both ends are clamped to the string.\<close>

definition slice :: "nat \<Rightarrow> nat \<Rightarrow> 'a list \<Rightarrow> 'a list" where
  "slice a b s = take (b - a) (drop a s)"

text \<open>
  \<^verbatim>\<open>chars[byte % chars.length]\<close>. On an empty string the remainder is \<^verbatim>\<open>NaN\<close>
  and the read gives \<^verbatim>\<open>undefined\<close>, here \<open>None\<close>; it does not raise.
\<close>

definition pick :: "string \<Rightarrow> byte \<Rightarrow> char option" where
  "pick chars b = (if chars = [] then None else Some (chars ! (unat b mod length chars)))"

text \<open>\<^verbatim>\<open>result += x\<close>: appending \<^verbatim>\<open>undefined\<close> to a string appends its name.\<close>

fun to_string :: "char option \<Rightarrow> string" where
  "to_string None = ''undefined''"
| "to_string (Some c) = [c]"

text \<open>\<^verbatim>\<open>array.join('')\<close>: an \<^verbatim>\<open>undefined\<close> element contributes nothing.\<close>

fun join_element :: "char option \<Rightarrow> string" where
  "join_element None = []"
| "join_element (Some c) = [c]"

definition join_chars :: "char option list \<Rightarrow> string" where
  "join_chars arr = concat (map join_element arr)"

text \<open>\<^verbatim>\<open>charset.slice(0, 20) + (charset.length > 20 ? '...' : '')\<close>\<close>

definition charset_display :: "string \<Rightarrow> string" where
  "charset_display cs = slice 0 20 cs @ (if length cs > 20 then ''...'' else [])"

text \<open>The decimal digits of a number, as a template literal prints it.\<close>

function show_nat :: "nat \<Rightarrow> string" where
  "show_nat n =
     (if n < 10 then [CHARSETS_numbers ! n]
      else show_nat (n div 10) @ [CHARSETS_numbers ! (n mod 10)])"
  by pat_completeness auto
termination
  by (relation "measure id") auto

declare show_nat.simps [simp del]

text \<open>
  The option objects. \<^verbatim>\<open>generateBatch\<close> hands one untyped \<^verbatim>\<open>options\<close> object to
  whichever generator the entry names, so one record holds the fields of
  \<^verbatim>\<open>BaseOptions\<close>, \<^verbatim>\<open>StringOptions\<close> and \<^verbatim>\<open>PasswordOptions\<close> and the two that
  only the batch reads (\<^verbatim>\<open>words\<close>, \<^verbatim>\<open>separator\<close>); every field is optional.
  The fields carry the prefix \<open>o_\<close>.
\<close>

record Options =
  o_length :: "nat option"
  o_format :: "string option"
  o_prefix :: "string option"
  o_suffix :: "string option"
  o_case :: "case_option option"
  o_include_uppercase :: "bool option"
  o_include_lowercase :: "bool option"
  o_include_numbers :: "bool option"
  o_include_special_chars :: "bool option"
  o_exclude_chars :: "string option"
  o_custom_charset :: "string option"
  o_exclude_ambiguous :: "bool option"
  o_min_uppercase :: "nat option"
  o_min_lowercase :: "nat option"
  o_min_numbers :: "nat option"
  o_min_special :: "nat option"
  o_special_char_set :: "string option"
  o_strength :: "string option"
  o_words :: "nat option"
  o_separator :: "string option"

text \<open>The empty object \<^verbatim>\<open>{}\<close>.\<close>

definition no_options :: Options where
  "no_options = \<lparr> o_length = None, o_format = None, o_prefix = None, o_suffix = None,
     o_case = None, o_include_uppercase = None, o_include_lowercase = None,
     o_include_numbers = None, o_include_special_chars = None, o_exclude_chars = None,
     o_custom_charset = None, o_exclude_ambiguous = None, o_min_uppercase = None,
     o_min_lowercase = None, o_min_numbers = None, o_min_special = None,
     o_special_char_set = None, o_strength = None, o_words = None, o_separator = None \<rparr>"

section \<open>UUID v4, ULID and Nano ID\<close>

definition generateUuid4 :: "(nat \<Rightarrow> byte) \<Rightarrow> nat \<Rightarrow> GenerationResult \<times> nat" where
  "generateUuid4 rnd pos =
     (let (bytes0, pos1) = getSecureRandomBytes rnd pos 16;
          bytes1 = bytes0[6 := ((bytes0 ! 6) AND 0x0f) OR 0x40];
          bytes = bytes1[8 := ((bytes1 ! 8) AND 0x3f) OR 0x80];
          hex = bytesToHex bytes;
          uuid = slice 0 8 hex @ ''-'' @ slice 8 12 hex @ ''-'' @ slice 12 16 hex @ ''-''
                 @ slice 16 20 hex @ ''-'' @ slice 20 32 hex
      in (\<lparr> r_value = uuid,
            r_name = ''uuid4'',
            r_description = ''Generated UUID4 for unique identification'',
            r_metadata = \<lparr> m_type = ''uuid4'', m_length = 36,
              m_algorithm = ''secure_random'', m_entropy_bits = Bits 122,
              m_charset = Some ''hex-with-dashes'', m_security_level = Level ''high'',
              m_extra = [] \<rparr> \<rparr>, pos1))"

definition base32 :: string where
  "base32 = ''0123456789ABCDEFGHJKMNPQRSTVWXYZ''"

text \<open>
  The timestamp loop of \<^verbatim>\<open>generateUlid\<close>, \<open>n\<close> characters still to write:
  \<^verbatim>\<open>ulid = base32[temp % 32] + ulid; temp = Math.floor(temp / 32)\<close>.
\<close>

fun encode_timestamp :: "nat \<Rightarrow> nat \<Rightarrow> string \<Rightarrow> string" where
  "encode_timestamp 0 temp ulid = ulid"
| "encode_timestamp (Suc n) temp ulid =
     encode_timestamp n (temp div 32) (base32 ! (temp mod 32) # ulid)"

text \<open>
  \<^verbatim>\<open>generateUlid\<close>; \<open>timestamp\<close> is the value \<^verbatim>\<open>Date.now()\<close> returns. The random
  part is \<^verbatim>\<open>base32[randomBytes[Math.floor(i * 10 / 16)] % 32]\<close> for \<open>i\<close> from 0 to 15.
\<close>

definition generateUlid :: "(nat \<Rightarrow> byte) \<Rightarrow> nat \<Rightarrow> nat \<Rightarrow> GenerationResult \<times> nat" where
  "generateUlid rnd pos timestamp =
     (let timestampChars = 10;
          randomChars = 16;
          ulid0 = encode_timestamp timestampChars timestamp [];
          (randomBytes, pos1) = getSecureRandomBytes rnd pos 10;
          ulid = ulid0 @ map (\<lambda>i. base32 ! (unat (randomBytes ! (i * 10 div 16)) mod 32))
                           [0..<randomChars]
      in (\<lparr> r_value = ulid,
            r_name = ''ulid'',
            r_description = ''Generated ULID for time-sortable unique identification'',
            r_metadata = \<lparr> m_type = ''ulid'', m_length = 26,
              m_algorithm = ''timestamp+secure_random'', m_entropy_bits = Bits 80,
              m_charset = Some ''crockford_base32'', m_security_level = Level ''high'',
              m_extra = [] \<rparr> \<rparr>, pos1))"

definition generateNanoId :: "(nat \<Rightarrow> byte) \<Rightarrow> nat \<Rightarrow> nat option \<Rightarrow> GenerationResult \<times> nat" where
  "generateNanoId rnd pos length_arg =
     (let len = default_to 21 length_arg;
          alphabet = CHARSETS_url_safe;
          (bytes, pos1) = getSecureRandomBytes rnd pos len;
          result = concat (map (\<lambda>b. to_string (pick alphabet b)) bytes)
      in (\<lparr> r_value = result,
            r_name = ''nano_id'',
            r_description = ''Generated Nano ID for URL-safe unique identification'',
            r_metadata = \<lparr> m_type = ''nano_id'', m_length = len,
              m_algorithm = ''secure_random'',
              m_entropy_bits = CalculateEntropy (length alphabet) len,
              m_charset = Some ''url_safe'', m_security_level = Level ''high'',
              m_extra = [] \<rparr> \<rparr>, pos1))"

section \<open>Random strings\<close>

text \<open>
  The charset of \<^verbatim>\<open>generateRandomString\<close>. Each excluded character is removed with
  a global replace of the escaped character, which deletes every occurrence of it.
\<close>

definition string_charset :: "Options \<Rightarrow> string" where
  "string_charset options =
     (let charset0 =
            (if or_string (o_custom_charset options) [] \<noteq> []
             then or_string (o_custom_charset options) []
             else (if o_include_uppercase options \<noteq> Some False then CHARSETS_uppercase else [])
                @ (if o_include_lowercase options \<noteq> Some False then CHARSETS_lowercase else [])
                @ (if o_include_numbers options \<noteq> Some False then CHARSETS_numbers else [])
                @ (if o_include_special_chars options = Some True
                   then or_string (o_special_char_set options) CHARSETS_special_safe else []));
          charset1 = (if charset0 = [] then CHARSETS_alphanumeric else charset0)
      in foldl (\<lambda>cs c. filter (\<lambda>x. x \<noteq> c) cs) charset1 (or_string (o_exclude_chars options) []))"

definition generateRandomString ::
  "(nat \<Rightarrow> byte) \<Rightarrow> nat \<Rightarrow> nat \<Rightarrow> Options \<Rightarrow> GenerationResult \<times> nat" where
  "generateRandomString rnd pos len options =
     (let charset = string_charset options;
          (bytes, pos1) = getSecureRandomBytes rnd pos len;
          result0 = concat (map (\<lambda>b. to_string (pick charset b)) bytes);
          result1 = applyCase result0 (o_case options);
          result = addAffixes result1 (o_prefix options) (o_suffix options)
      in (\<lparr> r_value = result,
            r_name = ''random_string'',
            r_description = ''Generated random string with custom character set'',
            r_metadata = \<lparr> m_type = ''random_string'', m_length = length result,
              m_algorithm = ''secure_random'',
              m_entropy_bits = CalculateEntropy (length charset) len,
              m_charset = Some (charset_display charset),
              m_security_level =
                IfEntropyGe (CalculateEntropy (length charset) len) 64
                  (Level ''high'') (Level ''medium''),
              m_extra = [] \<rparr> \<rparr>, pos1))"


definition generateAlphanumeric :: "(nat \<Rightarrow> byte) \<Rightarrow> nat \<Rightarrow> nat \<Rightarrow> GenerationResult \<times> nat" where
  "generateAlphanumeric rnd pos len =
     generateRandomString rnd pos len
       (no_options \<lparr> o_include_uppercase := Some True, o_include_lowercase := Some True,
          o_include_numbers := Some True, o_include_special_chars := Some False \<rparr>)"

definition generateBase64String :: "(nat \<Rightarrow> byte) \<Rightarrow> nat \<Rightarrow> nat \<Rightarrow> GenerationResult \<times> nat" where
  "generateBase64String rnd pos len =
     (let byteLength = (len * 3 + 3) div 4;
          (bytes, pos1) = getSecureRandomBytes rnd pos byteLength;
          base64 = slice 0 len (bytesToBase64 bytes)
      in (\<lparr> r_value = base64,
            r_name = ''base64_string'',
            r_description = ''Generated Base64 encoded string'',
            r_metadata = \<lparr> m_type = ''base64_string'', m_length = len,
              m_algorithm = ''secure_random'', m_entropy_bits = CalculateEntropy 64 len,
              m_charset = Some ''base64'',
              m_security_level =
                IfEntropyGe (CalculateEntropy 64 len) 64 (Level ''high'') (Level ''medium''),
              m_extra = [] \<rparr> \<rparr>, pos1))"

section \<open>Passwords\<close>

text \<open>
  The first part of \<^verbatim>\<open>generatePassword\<close>: the destructuring defaults and the array
  \<^verbatim>\<open>sets\<close> of enabled classes, each with its characters and its minimum, built
  together with \<^verbatim>\<open>charset\<close>, the concatenation of the enabled classes.
\<close>

definition build_character_sets :: "Options \<Rightarrow> (string \<times> nat) list \<times> string" where
  "build_character_sets options =
     (let include_uppercase = default_to True (o_include_uppercase options);
          include_lowercase = default_to True (o_include_lowercase options);
          include_numbers = default_to True (o_include_numbers options);
          include_special_chars = default_to True (o_include_special_chars options);
          exclude_ambiguous = default_to False (o_exclude_ambiguous options);
          min_uppercase = default_to 1 (o_min_uppercase options);
          min_lowercase = default_to 1 (o_min_lowercase options);
          min_numbers = default_to 1 (o_min_numbers options);
          min_special = default_to 1 (o_min_special options);
          special_char_set = default_to CHARSETS_special_safe (o_special_char_set options);
          upper = (if exclude_ambiguous
                   then filter (\<lambda>c. c \<notin> set ''IL'') CHARSETS_uppercase else CHARSETS_uppercase);
          lower = (if exclude_ambiguous
                   then filter (\<lambda>c. c \<notin> set ''il'') CHARSETS_lowercase else CHARSETS_lowercase);
          nums = (if exclude_ambiguous
                  then filter (\<lambda>c. c \<notin> set ''01'') CHARSETS_numbers else CHARSETS_numbers);
          (sets1, charset1) =
            (if include_uppercase then ([(upper, min_uppercase)], upper) else ([], []));
          (sets2, charset2) =
            (if include_lowercase then (sets1 @ [(lower, min_lowercase)], charset1 @ lower)
             else (sets1, charset1));
          (sets3, charset3) =
            (if include_numbers then (sets2 @ [(nums, min_numbers)], charset2 @ nums)
             else (sets2, charset2))
      in (if include_special_chars
          then (sets3 @ [(special_char_set, min_special)], charset3 @ special_char_set)
          else (sets3, charset3)))"

text \<open>
  \<open>n\<close> rounds of \<^verbatim>\<open>bytes = getSecureRandomBytes(1); password.push(chars[bytes[0] %
  chars.length])\<close>: the characters pushed, in order.
\<close>

fun draw_chars :: "(nat \<Rightarrow> byte) \<Rightarrow> string \<Rightarrow> nat \<Rightarrow> nat \<Rightarrow> char option list \<times> nat" where
  "draw_chars rnd chars 0 pos = ([], pos)"
| "draw_chars rnd chars (Suc n) pos =
     (let (bytes, pos1) = getSecureRandomBytes rnd pos 1;
          c = pick chars (bytes ! 0);
          (rest, pos2) = draw_chars rnd chars n pos1
      in (c # rest, pos2))"

text \<open>\<^verbatim>\<open>for (const set of sets) for (let i = 0; i < set.min; i++) ...\<close>\<close>

fun meet_minimums ::
  "(nat \<Rightarrow> byte) \<Rightarrow> (string \<times> nat) list \<Rightarrow> nat \<Rightarrow> char option list \<times> nat" where
  "meet_minimums rnd [] pos = ([], pos)"
| "meet_minimums rnd ((chars, min_count) # sets) pos =
     (let (drawn, pos1) = draw_chars rnd chars min_count pos;
          (rest, pos2) = meet_minimums rnd sets pos1
      in (drawn @ rest, pos2))"

text \<open>
  The array \<^verbatim>\<open>password\<close> before the shuffle: the minimum of each class, then
  \<^verbatim>\<open>length - password.length\<close> characters of \<^verbatim>\<open>charset\<close> (none when that
  difference is not positive).
\<close>

definition draw_password ::
  "(nat \<Rightarrow> byte) \<Rightarrow> nat \<Rightarrow> nat \<Rightarrow> Options \<Rightarrow> char option list \<times> nat" where
  "draw_password rnd pos len options =
     (let (sets, charset) = build_character_sets options;
          (password0, pos1) = meet_minimums rnd sets pos;
          remaining = len - length password0;
          (fill, pos2) = draw_chars rnd charset remaining pos1
      in (password0 @ fill, pos2))"

text \<open>
  The shuffle loop at index \<open>i\<close>, running down to 1:
  \<^verbatim>\<open>j = bytes[0] % (i + 1); [password[i], password[j]] = [password[j], password[i]]\<close>.
\<close>

fun shuffle :: "(nat \<Rightarrow> byte) \<Rightarrow> nat \<Rightarrow> 'a list \<Rightarrow> nat \<Rightarrow> 'a list \<times> nat" where
  "shuffle rnd 0 password pos = (password, pos)"
| "shuffle rnd (Suc i) password pos =
     (let (bytes, pos1) = getSecureRandomBytes rnd pos 1;
          j = unat (bytes ! 0) mod (Suc i + 1)
      in shuffle rnd i (password[Suc i := password ! j, j := password ! Suc i]) pos1)"

definition generatePassword ::
  "(nat \<Rightarrow> byte) \<Rightarrow> nat \<Rightarrow> nat \<Rightarrow> Options \<Rightarrow> GenerationResult \<times> nat" where
  "generatePassword rnd pos len options =
     (let strength = default_to ''high'' (o_strength options);
          (sets, charset) = build_character_sets options;
          (password1, pos2) = draw_password rnd pos len options;
          (password, pos3) = shuffle rnd (length password1 - 1) password1 pos2;
          result = join_chars password
      in (\<lparr> r_value = result,
            r_name = ''secure_password'',
            r_description = ''Generated secure password with customizable requirements'',
            r_metadata = \<lparr> m_type = ''secure_password'', m_length = len,
              m_algorithm = ''secure_random_with_requirements'',
              m_entropy_bits = CalculateEntropy (length charset) len,
              m_charset = Some (charset_display charset),
              m_security_level =
                Level (if strength = ''maximum'' then ''high''
                       else if strength = ''high'' then ''medium'' else ''low''),
              m_extra = [] \<rparr> \<rparr>, pos3))"

definition generateDatabasePassword ::
  "(nat \<Rightarrow> byte) \<Rightarrow> nat \<Rightarrow> nat \<Rightarrow> GenerationResult \<times> nat" where
  "generateDatabasePassword rnd pos len =
     generatePassword rnd pos len
       (no_options \<lparr> o_include_uppercase := Some True, o_include_lowercase := Some True,
          o_include_numbers := Some True, o_include_special_chars := Some True,
          o_exclude_ambiguous := Some True, o_special_char_set := Some ''@#$%^&*_+-='',
          o_strength := Some ''maximum'' \<rparr>)"

section \<open>Passphrases and PINs\<close>

definition wordList :: "string list" where
  "wordList = [
     ''able'', ''acid'', ''aged'', ''also'', ''area'', ''army'', ''away'', ''baby'', ''back'', ''ball'',
     ''band'', ''bank'', ''base'', ''bath'', ''bear'', ''beat'', ''been'', ''bell'', ''belt'', ''best'',
     ''bird'', ''blow'', ''blue'', ''boat'', ''body'', ''bomb'', ''bond'', ''bone'', ''book'', ''boom'',
     ''born'', ''boss'', ''both'', ''bowl'', ''bulk'', ''burn'', ''bush'', ''busy'', ''call'', ''calm'',
     ''came'', ''camp'', ''card'', ''care'', ''case'', ''cash'', ''cast'', ''cell'', ''chat'', ''chip'',
     ''city'', ''club'', ''coal'', ''coat'', ''code'', ''cold'', ''come'', ''cook'', ''cool'', ''copy'',
     ''core'', ''corn'', ''cost'', ''crew'', ''crop'', ''dark'', ''data'', ''date'', ''dawn'', ''days'',
     ''dead'', ''deal'', ''dean'', ''dear'', ''debt'', ''deck'', ''deep'', ''deer'', ''desk'', ''dial'',
     ''died'', ''diet'', ''disk'', ''done'', ''door'', ''dose'', ''down'', ''draw'', ''drew'', ''drop'',
     ''drug'', ''dual'', ''duck'', ''duke'', ''dust'', ''duty'', ''each'', ''earn'', ''east'', ''easy'',
     ''edge'', ''else'', ''even'', ''ever'', ''evil'', ''exit'', ''face'', ''fact'', ''fail'', ''fair'',
     ''fall'', ''farm'', ''fast'', ''fate'', ''fear'', ''feed'', ''feel'', ''feet'', ''fell'', ''felt'',
     ''file'', ''fill'', ''film'', ''find'', ''fine'', ''fire'', ''firm'', ''fish'', ''five'', ''flag'',
     ''flat'', ''flow'', ''folk'', ''food'', ''foot'', ''ford'', ''form'', ''fort'', ''four'', ''free'',
     ''from'', ''fuel'', ''full'', ''fund'', ''gain'', ''game'', ''gate'', ''gave'', ''gear'', ''gift'',
     ''girl'', ''give'', ''glad'', ''goal'', ''goes'', ''gold'', ''golf'', ''gone'', ''good'', ''gray'',
     ''grew'', ''grid'', ''grow'', ''hair'', ''half'', ''hall'', ''hand'', ''hang'', ''hard'', ''harm'',
     ''hate'', ''have'', ''head'', ''hear'', ''heat'', ''held'', ''hell'', ''help'', ''here'', ''hero'',
     ''hide'', ''high'', ''hill'', ''hire'', ''hold'', ''hole'', ''holy'', ''home'', ''hope'', ''host'',
     ''hour'', ''huge'', ''hung'', ''hunt'', ''hurt'', ''idea'', ''inch'', ''into'', ''iron'', ''item'']"

fun select_words :: "(nat \<Rightarrow> byte) \<Rightarrow> nat \<Rightarrow> nat \<Rightarrow> string list \<times> nat" where
  "select_words rnd 0 pos = ([], pos)"
| "select_words rnd (Suc n) pos =
     (let (bytes, pos1) = getSecureRandomBytes rnd pos 2;
          index = (unat (bytes ! 0) * 256 + unat (bytes ! 1)) mod length wordList;
          (rest, pos2) = select_words rnd n pos1
      in (wordList ! index # rest, pos2))"

text \<open>\<^verbatim>\<open>selectedWords.join(separator)\<close>\<close>

fun join_strings :: "string \<Rightarrow> string list \<Rightarrow> string" where
  "join_strings sep [] = []"
| "join_strings sep [w] = w"
| "join_strings sep (w # ws) = w @ sep @ join_strings sep ws"

definition generatePassphrase ::
  "(nat \<Rightarrow> byte) \<Rightarrow> nat \<Rightarrow> nat \<Rightarrow> string \<Rightarrow> GenerationResult \<times> nat" where
  "generatePassphrase rnd pos word_count sep =
     (let (selectedWords, pos1) = select_words rnd word_count pos;
          result = join_strings sep selectedWords;
          entropyBits = CalculateEntropy (length wordList) word_count
      in (\<lparr> r_value = result,
            r_name = ''passphrase'',
            r_description =
              ''Generated '' @ show_nat word_count @ ''-word passphrase using dictionary words'',
            r_metadata = \<lparr> m_type = ''passphrase'', m_length = length result,
              m_algorithm = ''dictionary_words'', m_entropy_bits = entropyBits,
              m_charset = None,
              m_security_level =
                IfEntropyGe entropyBits 50 (Level ''high'')
                  (IfEntropyGe entropyBits 30 (Level ''medium'') (Level ''low'')),
              m_extra = [(''word_count'', ExNum word_count), (''separator'', ExStr sep),
                         (''dictionary_size'', ExNum (length wordList))] \<rparr> \<rparr>, pos1))"

definition generatePin :: "(nat \<Rightarrow> byte) \<Rightarrow> nat \<Rightarrow> nat \<Rightarrow> GenerationResult \<times> nat" where
  "generatePin rnd pos len =
     (let (bytes, pos1) = getSecureRandomBytes rnd pos len;
          pin = concat (map (\<lambda>b. to_string (pick CHARSETS_numbers b)) bytes)
      in (\<lparr> r_value = pin,
            r_name = ''pin'',
            r_description =
              ''Generated '' @ show_nat len @ ''-digit PIN code for authentication'',
            r_metadata = \<lparr> m_type = ''pin'', m_length = len,
              m_algorithm = ''secure_random'',
              m_entropy_bits = CalculateEntropy (length CHARSETS_numbers) len,
              m_charset = Some ''numeric'',
              m_security_level = Level (if len \<ge> 6 then ''medium'' else ''low''),
              m_extra = [] \<rparr> \<rparr>, pos1))"

section \<open>API keys and cryptographic elements\<close>

text \<open>\<^verbatim>\<open>Math.ceil(length * 3 / 4)\<close> on a natural number is \<open>(length * 3 + 3) div 4\<close>.\<close>

definition generateApiKey ::
  "(nat \<Rightarrow> byte) \<Rightarrow> nat \<Rightarrow> string \<Rightarrow> nat \<Rightarrow> GenerationResult \<times> nat" where
  "generateApiKey rnd pos format len =
     (let (bytes, pos1) = getSecureRandomBytes rnd pos ((len * 3 + 3) div 4);
          result =
            (if format = ''base64'' then slice 0 len (bytesToBase64 bytes)
             else if format = ''base64url'' then slice 0 len (bytesToBase64Url bytes)
             else slice 0 len (bytesToHex bytes))
      in (\<lparr> r_value = result,
            r_name = ''api_key_'' @ format @ show_nat len,
            r_description = ''Generated API key in '' @ format @ '' format'',
            r_metadata = \<lparr> m_type = ''api_key'', m_length = len,
              m_algorithm = ''secure_random'',
              m_entropy_bits = CalculateEntropy (if format = ''hex'' then 16 else 64) len,
              m_charset = Some format,
              m_security_level = Level (if len \<ge> 32 then ''high'' else ''medium''),
              m_extra = [(''format'', ExStr format)] \<rparr> \<rparr>, pos1))"

text \<open>
  The size tables are object literals read with \<^verbatim>\<open>table[algorithm.toLowerCase()] ||
  default\<close>. They are modelled as association lists of their own keys.
\<close>

definition ivSizes :: "(string \<times> nat) list" where
  "ivSizes = [(''aes128'', 16), (''aes192'', 16), (''aes256'', 16), (''des'', 8),
              (''blowfish'', 8), (''chacha20'', 12)]"

text \<open>
  A name whose lower-case form is a member that every object inherits is not a key of
  the association list, while the lookup of the source finds the inherited member
  instead of a size. The properties of \<^verbatim>\<open>generateIv\<close> below leave these names out.
\<close>

definition inherited_property_names :: "string list" where
  "inherited_property_names = [''constructor'', ''__proto__'']"

definition keySizes :: "(string \<times> nat) list" where
  "keySizes = [(''aes128'', 16), (''aes192'', 24), (''aes256'', 32), (''des'', 8),
               (''blowfish'', 16), (''chacha20'', 32)]"

definition generateIv :: "(nat \<Rightarrow> byte) \<Rightarrow> nat \<Rightarrow> string \<Rightarrow> GenerationResult \<times> nat" where
  "generateIv rnd pos algorithm =
     (let size = or_number (map_of ivSizes (toLowerCase algorithm)) 16;
          (bytes, pos1) = getSecureRandomBytes rnd pos size;
          result = bytesToHex bytes
      in (\<lparr> r_value = result,
            r_name = ''initialization_vector'',
            r_description =
              ''Generated initialization vector for '' @ algorithm @ '' encryption'',
            r_metadata = \<lparr> m_type = ''initialization_vector'', m_length = length result,
              m_algorithm = algorithm, m_entropy_bits = Bits (size * 8),
              m_charset = Some ''hex'', m_security_level = Level ''high'',
              m_extra = [(''byte_size'', ExNum size)] \<rparr> \<rparr>, pos1))"

definition generateEncryptionKey ::
  "(nat \<Rightarrow> byte) \<Rightarrow> nat \<Rightarrow> string \<Rightarrow> GenerationResult \<times> nat" where
  "generateEncryptionKey rnd pos algorithm =
     (let size = or_number (map_of keySizes (toLowerCase algorithm)) 32;
          (bytes, pos1) = getSecureRandomBytes rnd pos size;
          result = bytesToBase64 bytes
      in (\<lparr> r_value = result,
            r_name = ''encryption_key'',
            r_description = ''Generated encryption key for '' @ algorithm,
            r_metadata = \<lparr> m_type = ''encryption_key'', m_length = length result,
              m_algorithm = algorithm, m_entropy_bits = Bits (size * 8),
              m_charset = Some ''hex'', m_security_level = Level ''high'',
              m_extra = [(''byte_size'', ExNum size)] \<rparr> \<rparr>, pos1))"

section \<open>AWS-style credentials\<close>

text \<open>
  \<^verbatim>\<open>JSON.stringify\<close> of the object \<^verbatim>\<open>{access_key, secret_key}\<close>, compact and
  with an indentation of 2. Both strings consist of letters, digits and the base64
  characters, none of which JSON escapes.
\<close>

definition json_string :: "string \<Rightarrow> string" where
  "json_string s = [CHR 0x22] @ s @ [CHR 0x22]"

definition stringify_credentials :: "string \<Rightarrow> string \<Rightarrow> string" where
  "stringify_credentials access_key secret_key =
     ''{'' @ json_string ''access_key'' @ '':'' @ json_string access_key @ '',''
     @ json_string ''secret_key'' @ '':'' @ json_string secret_key @ ''}''"

definition stringify_credentials_indent2 :: "string \<Rightarrow> string \<Rightarrow> string" where
  "stringify_credentials_indent2 access_key secret_key =
     ''{'' @ [CHR 0x0A] @ ''  '' @ json_string ''access_key'' @ '': '' @ json_string access_key
     @ '','' @ [CHR 0x0A] @ ''  '' @ json_string ''secret_key'' @ '': '' @ json_string secret_key
     @ [CHR 0x0A] @ ''}''"

definition generateAwsCredentials :: "(nat \<Rightarrow> byte) \<Rightarrow> nat \<Rightarrow> GenerationResult \<times> nat" where
  "generateAwsCredentials rnd pos =
     (let (r1, pos1) = generateAlphanumeric rnd pos 16;
          accessKey = ''AKIA'' @ r_value r1;
          (r2, pos2) = generateApiKey rnd pos1 ''base64'' 40;
          secretKey = r_value r2
      in (\<lparr> r_value = stringify_credentials_indent2 accessKey secretKey,
            r_name = ''aws_credentials'',
            r_description = ''Generated AWS-style access credentials'',
            r_metadata = \<lparr> m_type = ''aws_credentials'',
              m_length = length (stringify_credentials accessKey secretKey),
              m_algorithm = ''aws_format'', m_entropy_bits = Bits 240,
              m_charset = Some ''alphanumeric+base64'', m_security_level = Level ''high'',
              m_extra = [] \<rparr> \<rparr>, pos2))"

section \<open>Batch generation\<close>

datatype error = UnknownCredentialType string | ReferenceError string

record BatchRequest =
  b_type :: string
  b_count :: nat
  b_options :: "Options option"

text \<open>
  The \<^verbatim>\<open>switch (type)\<close> of \<^verbatim>\<open>generateBatch\<close>. The functions
  \<^verbatim>\<open>generateToken\<close> and \<^verbatim>\<open>generateSecret\<close> that two of its cases call are
  neither defined nor imported in the module, so evaluating the call raises a
  \<^verbatim>\<open>ReferenceError\<close>. The clock \<open>now\<close> gives the value of \<^verbatim>\<open>Date.now()\<close> as a
  function of the number of random bytes drawn before it is read.
\<close>

definition generate_credential ::
  "(nat \<Rightarrow> byte) \<Rightarrow> (nat \<Rightarrow> nat) \<Rightarrow> nat \<Rightarrow> string \<Rightarrow> Options
     \<Rightarrow> (error + GenerationResult) \<times> nat" where
  "generate_credential rnd now pos type options =
     (if type = ''uuid4'' then map_prod Inr id (generateUuid4 rnd pos)
      else if type = ''ulid'' then map_prod Inr id (generateUlid rnd pos (now pos))
      else if type = ''nano_id'' then map_prod Inr id (generateNanoId rnd pos (o_length options))
      else if type = ''password''
        then map_prod Inr id (generatePassword rnd pos (or_number (o_length options) 16) options)
      else if type = ''pin''
        then map_prod Inr id (generatePin rnd pos (or_number (o_length options) 6))
      else if type = ''passphrase''
        then map_prod Inr id
               (generatePassphrase rnd pos (or_number (o_words options) 6)
                  (or_string (o_separator options) ''-''))
      else if type = ''api_key''
        then map_prod Inr id
               (generateApiKey rnd pos (or_string (o_format options) ''hex'')
                  (or_number (o_length options) 32))
      else if type = ''token'' then (Inl (ReferenceError ''generateToken''), pos)
      else if type = ''random_string''
        then map_prod Inr id
               (generateRandomString rnd pos (or_number (o_length options) 32) options)
      else if type = ''secret'' then (Inl (ReferenceError ''generateSecret''), pos)
      else (Inl (UnknownCredentialType type), pos))"

text \<open>The inner loop \<^verbatim>\<open>for (let i = 0; i < count; i++)\<close>: the results pushed.\<close>

fun generate_items ::
  "(nat \<Rightarrow> byte) \<Rightarrow> (nat \<Rightarrow> nat) \<Rightarrow> string \<Rightarrow> Options \<Rightarrow> nat \<Rightarrow> nat
     \<Rightarrow> (error + GenerationResult list) \<times> nat" where
  "generate_items rnd now type options 0 pos = (Inr [], pos)"
| "generate_items rnd now type options (Suc n) pos =
     (case generate_credential rnd now pos type options of
        (Inl e, pos1) \<Rightarrow> (Inl e, pos1)
      | (Inr r, pos1) \<Rightarrow>
          (case generate_items rnd now type options n pos1 of
             (Inl e, pos2) \<Rightarrow> (Inl e, pos2)
           | (Inr rs, pos2) \<Rightarrow> (Inr (r # rs), pos2)))"

text \<open>
  The object \<^verbatim>\<open>results\<close> is an association list in insertion order.
  \<^verbatim>\<open>results[type] = v\<close> replaces the value of a key that is present, where it
  stands, and appends a key that is absent. The keys are the types of the requests:
  one of the ten types that the \<^verbatim>\<open>switch\<close> knows, or any other string in a request
  whose count is 0, which generates nothing and raises nothing (among those, the
  name \<^verbatim>\<open>__proto__\<close>, which an object does not keep as a key, and the names that
  look like integers, which an object lists before its other keys, are not told
  apart; the properties below look a type up and do not use the order of the keys).
\<close>

fun set_key :: "('k \<times> 'v) list \<Rightarrow> 'k \<Rightarrow> 'v \<Rightarrow> ('k \<times> 'v) list" where
  "set_key [] k v = [(k, v)]"
| "set_key ((k', v') # rest) k v =
     (if k' = k then (k, v) # rest else (k', v') # set_key rest k v)"

text \<open>
  The outer loop \<^verbatim>\<open>for (const request of requests)\<close>: each request first sets
  \<^verbatim>\<open>results[type] = []\<close> and then pushes its results to that array.
\<close>

fun process_requests ::
  "(nat \<Rightarrow> byte) \<Rightarrow> (nat \<Rightarrow> nat) \<Rightarrow> BatchRequest list
     \<Rightarrow> (string \<times> GenerationResult list) list \<Rightarrow> nat
     \<Rightarrow> (error + (string \<times> GenerationResult list) list) \<times> nat" where
  "process_requests rnd now [] results pos = (Inr results, pos)"
| "process_requests rnd now (request # requests) results pos =
     (let type = b_type request;
          options = default_to no_options (b_options request);
          results1 = set_key results type []
      in case generate_items rnd now type options (b_count request) pos of
           (Inl e, pos1) \<Rightarrow> (Inl e, pos1)
         | (Inr items, pos1) \<Rightarrow>
             process_requests rnd now requests (set_key results1 type items) pos1)"

text \<open>
  The result of \<^verbatim>\<open>generateBatch\<close>. Its \<^verbatim>\<open>value\<close> is the JSON text of \<^verbatim>\<open>results\<close>;
  the record holds \<^verbatim>\<open>results\<close> itself, with the metadata entries \<^verbatim>\<open>total_items\<close>
  and \<^verbatim>\<open>types_generated\<close> computed from the requests and the results.
\<close>

record BatchResult =
  br_results :: "(string \<times> GenerationResult list) list"
  br_total_items :: nat
  br_types_generated :: "string list"

definition generateBatch ::
  "(nat \<Rightarrow> byte) \<Rightarrow> (nat \<Rightarrow> nat) \<Rightarrow> nat \<Rightarrow> BatchRequest list \<Rightarrow> (error + BatchResult) \<times> nat" where
  "generateBatch rnd now pos requests =
     (case process_requests rnd now requests [] pos of
        (Inl e, pos1) \<Rightarrow> (Inl e, pos1)
      | (Inr res, pos1) \<Rightarrow>
          (Inr \<lparr> br_results = res,
                 br_total_items = foldl (\<lambda>sum req. sum + b_count req) 0 requests,
                 br_types_generated = map fst res \<rparr>, pos1))"

section \<open>The tool handlers\<close>

text \<open>
  The handlers of the tools \<^verbatim>\<open>generatePassword\<close> and \<^verbatim>\<open>generateBatch\<close> validate
  their arguments and only then call the generator; a failed validation is answered
  with an error response. A handler also catches what the generator throws.
\<close>

datatype tool_response =
    PasswordSecurityValidationFailed "string list"
  | BatchSecurityValidationFailed "string list"
  | ToolError error
  | ToolResult GenerationResult
  | ToolBatchResult BatchResult

text \<open>
  The arguments of the password tool after its schema has supplied the defaults:
  only \<^verbatim>\<open>special_char_set\<close> can be absent.
\<close>

record PasswordArgs =
  pa_length :: nat
  pa_include_uppercase :: bool
  pa_include_lowercase :: bool
  pa_include_numbers :: bool
  pa_include_special_chars :: bool
  pa_exclude_ambiguous :: bool
  pa_min_uppercase :: nat
  pa_min_lowercase :: nat
  pa_min_numbers :: nat
  pa_min_special :: nat
  pa_special_char_set :: "string option"
  pa_strength :: string

text \<open>
  \<^verbatim>\<open>validatePasswordSecurity\<close>. Its third check reads \<^verbatim>\<open>custom_charset\<close>, which
  the schema of the tool does not have, so it never adds an error.
\<close>

definition validatePasswordSecurity :: "PasswordArgs \<Rightarrow> bool \<times> string list" where
  "validatePasswordSecurity options =
     (let errors1 =
            (if pa_min_uppercase options + pa_min_lowercase options + pa_min_numbers options
                  + pa_min_special options > pa_length options
             then [''Sum of minimum character requirements exceeds password length'']
             else []);
          enabledTypes =
            length (filter id [pa_include_uppercase options, pa_include_lowercase options,
                               pa_include_numbers options, pa_include_special_chars options]);
          errors2 =
            (if enabledTypes < 2
             then errors1 @ [''Password must include at least 2 character types for security'']
             else errors1)
      in (errors2 = [], errors2))"

definition passwordOptions :: "PasswordArgs \<Rightarrow> Options" where
  "passwordOptions args =
     no_options \<lparr> o_include_uppercase := Some (pa_include_uppercase args),
       o_include_lowercase := Some (pa_include_lowercase args),
       o_include_numbers := Some (pa_include_numbers args),
       o_include_special_chars := Some (pa_include_special_chars args),
       o_exclude_ambiguous := Some (pa_exclude_ambiguous args),
       o_min_uppercase := Some (pa_min_uppercase args),
       o_min_lowercase := Some (pa_min_lowercase args),
       o_min_numbers := Some (pa_min_numbers args),
       o_min_special := Some (pa_min_special args),
       o_special_char_set := pa_special_char_set args,
       o_strength := Some (pa_strength args) \<rparr>"

definition generatePassword_tool ::
  "(nat \<Rightarrow> byte) \<Rightarrow> nat \<Rightarrow> PasswordArgs \<Rightarrow> tool_response \<times> nat" where
  "generatePassword_tool rnd pos args =
     (let (valid, errors) = validatePasswordSecurity args
      in if \<not> valid then (PasswordSecurityValidationFailed errors, pos)
         else map_prod ToolResult id
                (generatePassword rnd pos (pa_length args) (passwordOptions args)))"

definition validateBatchSecurity :: "BatchRequest list \<Rightarrow> bool \<times> string list" where
  "validateBatchSecurity requests =
     (let totalItems = foldl (\<lambda>sum req. sum + b_count req) 0 requests;
          errors1 =
            (if totalItems > 100
             then [''Total batch items cannot exceed 100 for resource protection'']
             else []);
          highCountItems = filter (\<lambda>req. b_count req > 20) requests;
          errors2 =
            (if length highCountItems > 0
             then errors1 @ [''Individual request count cannot exceed 20 for resource protection'']
             else errors1)
      in (errors2 = [], errors2))"

definition generateBatch_tool ::
  "(nat \<Rightarrow> byte) \<Rightarrow> (nat \<Rightarrow> nat) \<Rightarrow> nat \<Rightarrow> BatchRequest list \<Rightarrow> tool_response \<times> nat" where
  "generateBatch_tool rnd now pos requests =
     (let batchRequests =
            map (\<lambda>req. \<lparr> b_type = b_type req, b_count = b_count req,
                         b_options = Some (default_to no_options (b_options req)) \<rparr>) requests;
          (valid, errors) = validateBatchSecurity batchRequests
      in if \<not> valid then (BatchSecurityValidationFailed errors, pos)
         else (case generateBatch rnd now pos batchRequests of
                 (Inl e, pos1) \<Rightarrow> (ToolError e, pos1)
               | (Inr res, pos1) \<Rightarrow> (ToolBatchResult res, pos1)))"

section \<open>Comparing strings\<close>

text \<open>
  The order of strings under \<^verbatim>\<open><\<close>: character by character by code, a proper
  prefix before the longer string.
\<close>

fun string_less :: "string \<Rightarrow> string \<Rightarrow> bool" where
  "string_less [] [] = False"
| "string_less [] (y # ys) = True"
| "string_less (x # xs) [] = False"
| "string_less (x # xs) (y # ys) =
     ((of_char x :: nat) < of_char y \<or> (x = y \<and> string_less xs ys))"

section \<open>Sample inputs\<close>

text \<open>Byte streams and option objects at which the properties below are evaluated.\<close>

definition sample_stream :: "nat \<Rightarrow> byte" where
  "sample_stream i = of_nat (37 * i + 11)"

definition constant_stream :: "byte \<Rightarrow> nat \<Rightarrow> byte" where
  "constant_stream b i = b"

definition short_password_options :: Options where
  "short_password_options =
     no_options \<lparr> o_min_uppercase := Some 2, o_min_lowercase := Some 2, o_min_numbers := Some 2 \<rparr>"

definition empty_special_options :: Options where
  "empty_special_options = no_options \<lparr> o_special_char_set := Some [] \<rparr>"

definition excluded_all_options :: Options where
  "excluded_all_options =
     no_options \<lparr> o_custom_charset := Some ''abc'', o_exclude_chars := Some ''abc'' \<rparr>"

definition sample_password_args :: PasswordArgs where
  "sample_password_args =
     \<lparr> pa_length = 8, pa_include_uppercase = True, pa_include_lowercase = True,
       pa_include_numbers = True, pa_include_special_chars = True,
       pa_exclude_ambiguous = False, pa_min_uppercase = 3, pa_min_lowercase = 3,
       pa_min_numbers = 3, pa_min_special = 1, pa_special_char_set = None,
       pa_strength = ''high'' \<rparr>"

definition sample_clock :: "nat \<Rightarrow> nat" where
  "sample_clock p = 1700000000000 + p"

definition over_limit_requests :: "BatchRequest list" where
  "over_limit_requests =
     [\<lparr> b_type = ''pin'', b_count = 20, b_options = None \<rparr>,
      \<lparr> b_type = ''uuid4'', b_count = 20, b_options = None \<rparr>,
      \<lparr> b_type = ''ulid'', b_count = 20, b_options = None \<rparr>,
      \<lparr> b_type = ''nano_id'', b_count = 20, b_options = None \<rparr>,
      \<lparr> b_type = ''password'', b_count = 20, b_options = None \<rparr>,
      \<lparr> b_type = ''passphrase'', b_count = 1, b_options = None \<rparr>]"


section \<open>Properties of the hexadecimal encoding\<close>

lemma length_hex_lower: "length hex_lower = 16"
  by (simp add: hex_lower_def)

lemma hex_lower_nth_mem: "n < 16 \<Longrightarrow> hex_lower ! n \<in> set hex_lower"
  by (rule nth_mem) (simp add: length_hex_lower)

lemma byte_hex_two_digits:
  "padStart 2 (CHR ''0'') (toString16 b) = [hex_lower ! (unat b div 16), hex_lower ! (unat b mod 16)]"
  by (simp add: padStart_def toString16_def hex_lower_def)

lemma bytesToHex_Nil: "bytesToHex [] = []"
  by (simp add: bytesToHex_def)

lemma bytesToHex_Cons:
  "bytesToHex (b # bs) = hex_lower ! (unat b div 16) # hex_lower ! (unat b mod 16) # bytesToHex bs"
  by (simp add: bytesToHex_def byte_hex_two_digits)

lemma length_bytesToHex: "length (bytesToHex bs) = 2 * length bs"
  by (induction bs) (simp_all add: bytesToHex_Nil bytesToHex_Cons)

lemma unat_byte_div_16: "unat (b :: byte) div 16 < 16"
proof -
  have "unat b < 256" using unsigned_less [of b, where 'a = nat] by simp
  then show ?thesis by simp
qed

lemma set_bytesToHex: "set (bytesToHex bs) \<subseteq> set hex_lower"
  by (induction bs)
     (simp_all add: bytesToHex_Nil bytesToHex_Cons hex_lower_nth_mem unat_byte_div_16)

lemma length_getSecureRandomBytes: "length (fst (getSecureRandomBytes rnd pos n)) = n"
  by (simp add: getSecureRandomBytes_def)






section \<open>Properties of the UUID\<close>

lemma nth_bytesToHex:
  "i < length bs \<Longrightarrow>
     bytesToHex bs ! (2 * i) = hex_lower ! (unat (bs ! i) div 16)
   \<and> bytesToHex bs ! (2 * i + 1) = hex_lower ! (unat (bs ! i) mod 16)"
proof (induction bs arbitrary: i)
  case Nil
  then show ?case by simp
next
  case (Cons b bs)
  show ?case
  proof (cases i)
    case 0
    then show ?thesis by (simp add: bytesToHex_Cons)
  next
    case (Suc j)
    with Cons.prems have "j < length bs" by simp
    from Cons.IH [OF this] Suc show ?thesis by (simp add: bytesToHex_Cons)
  qed
qed

lemma version_nibble: "unat (((b :: byte) AND 0x0f) OR 0x40) div 16 = 4"
proof -
  let ?w = "(b AND 0x0f) OR 0x40"
  have d: "drop_bit 4 ?w = (4 :: byte)"
    by (rule bit_word_eqI) (simp add: bit_simps)
  have "unat ?w div 2 ^ 4 = unat (drop_bit 4 ?w)"
    by (simp only: unat_drop_bit_eq) (simp only: drop_bit_eq_div)
  also have "\<dots> = 4"
    by (simp only: d) simp
  finally show ?thesis by simp
qed

lemma variant_bits: "unat (((b :: byte) AND 0x3f) OR 0x80) div 64 = 2"
proof -
  let ?w = "(b AND 0x3f) OR 0x80"
  have d: "drop_bit 6 ?w = (2 :: byte)"
    by (rule bit_word_eqI) (simp add: bit_simps)
  have "unat ?w div 2 ^ 6 = unat (drop_bit 6 ?w)"
    by (simp only: unat_drop_bit_eq) (simp only: drop_bit_eq_div)
  also have "\<dots> = 2"
    by (simp only: d) simp
  finally show ?thesis by simp
qed

lemma variant_nibble:
  "unat (((b :: byte) AND 0x3f) OR 0x80) div 16 \<in> {8, 9, 10, 11}"
  using variant_bits [of b] by (simp; arith)

lemma variant_digit: "n \<in> {8, 9, 10, 11} \<Longrightarrow> hex_lower ! n \<in> set ''89ab''"
  by (auto simp: hex_lower_def)

lemma uuid_value:
  "r_value (fst (generateUuid4 rnd pos)) =
     (let bytes0 = map rnd [pos..<pos + 16];
          bytes1 = bytes0[6 := ((bytes0 ! 6) AND 0x0f) OR 0x40];
          hex = bytesToHex (bytes1[8 := ((bytes1 ! 8) AND 0x3f) OR 0x80])
      in take 8 hex @ ''-'' @ take 4 (drop 8 hex) @ ''-'' @ take 4 (drop 12 hex) @ ''-''
         @ take 4 (drop 16 hex) @ ''-'' @ take 12 (drop 20 hex))"
  by (simp add: generateUuid4_def getSecureRandomBytes_def slice_def Let_def)

text \<open>
  C7: for every 16 random bytes \<^verbatim>\<open>generateUuid4\<close> returns 36 characters, five
  groups of 8, 4, 4, 4 and 12 lowercase hexadecimal digits separated by dashes; the
  character at position 14 is \<^verbatim>\<open>4\<close>, the character at position 19 is one of
  \<^verbatim>\<open>8\<close>, \<^verbatim>\<open>9\<close>, \<^verbatim>\<open>a\<close>, \<^verbatim>\<open>b\<close> (variant bits \<open>10\<close>), and \<^verbatim>\<open>entropy_bits\<close> is 122.
\<close>

theorem generateUuid4_format:
  "\<exists>g1 g2 g3 g4 g5.
      r_value (fst (generateUuid4 rnd pos)) = g1 @ ''-'' @ g2 @ ''-'' @ g3 @ ''-'' @ g4 @ ''-'' @ g5
    \<and> length g1 = 8 \<and> length g2 = 4 \<and> length g3 = 4 \<and> length g4 = 4 \<and> length g5 = 12
    \<and> set (g1 @ g2 @ g3 @ g4 @ g5) \<subseteq> set ''0123456789abcdef''
    \<and> length (r_value (fst (generateUuid4 rnd pos))) = 36
    \<and> r_value (fst (generateUuid4 rnd pos)) ! 14 = CHR ''4''
    \<and> r_value (fst (generateUuid4 rnd pos)) ! 19 \<in> set ''89ab''
    \<and> m_entropy_bits (r_metadata (fst (generateUuid4 rnd pos))) = Bits 122"
proof -
  define bytes0 where "bytes0 = map rnd [pos..<pos + 16]"
  define bytes1 where "bytes1 = bytes0[6 := ((bytes0 ! 6) AND 0x0f) OR 0x40]"
  define bytes where "bytes = bytes1[8 := ((bytes1 ! 8) AND 0x3f) OR 0x80]"
  define hex where "hex = bytesToHex bytes"
  have lb: "length bytes = 16"
    by (simp add: bytes_def bytes1_def bytes0_def)
  have b6: "bytes ! 6 = ((bytes0 ! 6) AND 0x0f) OR 0x40"
    by (simp add: bytes_def bytes1_def bytes0_def)
  have b8: "bytes ! 8 = ((bytes1 ! 8) AND 0x3f) OR 0x80"
    by (simp add: bytes_def bytes1_def bytes0_def)
  have len: "length hex = 32"
    by (simp add: hex_def length_bytesToHex lb)
  have sub: "set hex \<subseteq> set hex_lower"
    unfolding hex_def by (rule set_bytesToHex)
  have v: "r_value (fst (generateUuid4 rnd pos)) =
      take 8 hex @ ''-'' @ take 4 (drop 8 hex) @ ''-'' @ take 4 (drop 12 hex) @ ''-''
         @ take 4 (drop 16 hex) @ ''-'' @ take 12 (drop 20 hex)"
    by (simp add: uuid_value hex_def bytes_def bytes1_def bytes0_def Let_def)
  have h12: "hex ! 12 = CHR ''4''"
  proof -
    have "hex ! (2 * 6) = hex_lower ! (unat (bytes ! 6) div 16)"
      unfolding hex_def using nth_bytesToHex [of 6 bytes] by (simp add: lb)
    then show ?thesis by (simp add: b6 version_nibble hex_lower_def)
  qed
  have h16: "hex ! 16 \<in> set ''89ab''"
  proof -
    have "hex ! (2 * 8) = hex_lower ! (unat (bytes ! 8) div 16)"
      unfolding hex_def using nth_bytesToHex [of 8 bytes] by (simp add: lb)
    then have "hex ! 16 = hex_lower ! (unat (((bytes1 ! 8) AND 0x3f) OR 0x80) div 16)"
      by (simp add: b8)
    then show ?thesis using variant_digit [OF variant_nibble [of "bytes1 ! 8"]] by simp
  qed
  have s: "set (take 8 hex @ take 4 (drop 8 hex) @ take 4 (drop 12 hex)
         @ take 4 (drop 16 hex) @ take 12 (drop 20 hex)) \<subseteq> set hex_lower"
  proof -
    have "set (take n (drop m hex)) \<subseteq> set hex_lower" for n m
      using sub set_take_subset [of n "drop m hex"] set_drop_subset [of m hex] by blast
    moreover have "set (take 8 hex) \<subseteq> set hex_lower"
      using sub set_take_subset [of 8 hex] by blast
    ultimately show ?thesis by simp
  qed
  have l36: "length (r_value (fst (generateUuid4 rnd pos))) = 36"
    by (simp add: v len)
  have n14: "r_value (fst (generateUuid4 rnd pos)) ! 14 = CHR ''4''"
    using h12 by (simp add: v len nth_append)
  have n19: "r_value (fst (generateUuid4 rnd pos)) ! 19 \<in> set ''89ab''"
    using h16 by (simp add: v len nth_append)
  have e: "m_entropy_bits (r_metadata (fst (generateUuid4 rnd pos))) = Bits 122"
    by (simp add: generateUuid4_def split_beta Let_def)
  show ?thesis
    apply (rule exI [of _ "take 8 hex"])
    apply (rule exI [of _ "take 4 (drop 8 hex)"])
    apply (rule exI [of _ "take 4 (drop 12 hex)"])
    apply (rule exI [of _ "take 4 (drop 16 hex)"])
    apply (rule exI [of _ "take 12 (drop 20 hex)"])
    apply (intro conjI)
    using v apply simp
    using len apply simp
    using len apply simp
    using len apply simp
    using len apply simp
    using len apply simp
    using s [unfolded hex_lower_def] apply simp
    using l36 apply simp
    using n14 apply simp
    using n19 apply simp
    using e apply simp
    done
qed

lemma sample_uuid:
  "r_value (fst (generateUuid4 sample_stream 0)) = ''0b30557a-9fc4-490e-b358-7da2c7ec1136''"
  by (simp add: uuid_value Let_def sample_stream_def upt_rec bytesToHex_Cons bytesToHex_Nil
      hex_lower_def)

theorem generateUuid4_format_witness:
  "r_value (fst (generateUuid4 sample_stream 0)) = ''0b30557a-9fc4-490e-b358-7da2c7ec1136''
   \<and> length (r_value (fst (generateUuid4 sample_stream 0))) = 36
   \<and> r_value (fst (generateUuid4 sample_stream 0)) ! 14 = CHR ''4''
   \<and> r_value (fst (generateUuid4 sample_stream 0)) ! 19 = CHR ''b''"
  using generateUuid4_format [of sample_stream 0] sample_uuid by simp

section \<open>Properties of the password generator\<close>

lemma draw_chars_length: "length (fst (draw_chars rnd chars n pos)) = n"
  by (induction n arbitrary: pos) (simp_all add: split_beta Let_def)

lemma draw_chars_pos: "snd (draw_chars rnd chars n pos) = pos + n"
  by (induction n arbitrary: pos) (simp_all add: split_beta Let_def getSecureRandomBytes_def)

lemma pick_nonempty: "chars \<noteq> [] \<Longrightarrow> \<exists>c \<in> set chars. pick chars b = Some c"
  by (simp add: pick_def)

lemma draw_chars_set:
  "chars \<noteq> [] \<Longrightarrow> set (fst (draw_chars rnd chars n pos)) \<subseteq> Some ` set chars"
proof (induction n arbitrary: pos)
  case 0
  then show ?case by simp
next
  case (Suc n)
  from pick_nonempty [OF Suc.prems]
  have "pick chars b \<in> Some ` set chars" for b by fastforce
  with Suc.IH [OF Suc.prems] show ?case
    by (simp add: split_beta Let_def)
qed

lemma meet_minimums_length:
  "length (fst (meet_minimums rnd sets pos)) = sum_list (map snd sets)"
  by (induction sets arbitrary: pos)
     (auto simp: split_beta Let_def draw_chars_length)

lemma meet_minimums_pos:
  "snd (meet_minimums rnd sets pos) = pos + sum_list (map snd sets)"
  by (induction sets arbitrary: pos)
     (auto simp: split_beta Let_def draw_chars_pos)

lemma meet_minimums_some:
  "\<forall>(cs, m) \<in> set sets. cs \<noteq> [] \<Longrightarrow> None \<notin> set (fst (meet_minimums rnd sets pos))"
proof (induction sets arbitrary: pos)
  case Nil
  then show ?case by simp
next
  case (Cons a sets)
  obtain cs m where a: "a = (cs, m)" by (cases a)
  from Cons.prems a have ne: "cs \<noteq> []" by simp
  from Cons.prems have rest: "\<forall>(cs, m) \<in> set sets. cs \<noteq> []" by simp
  have "None \<notin> set (fst (draw_chars rnd cs m pos))"
    using draw_chars_set [OF ne, of rnd m pos] by blast
  with Cons.IH [OF rest] show ?case
    by (simp add: a split_beta Let_def)
qed

lemma meet_minimums_count:
  assumes "\<forall>(cs, m) \<in> set sets. cs \<noteq> []" and "(cs, m) \<in> set sets"
  shows "m \<le> length (filter (\<lambda>x. x \<in> Some ` set cs) (fst (meet_minimums rnd sets pos)))"
  using assms
proof (induction sets arbitrary: pos)
  case Nil
  then show ?case by simp
next
  case (Cons a sets)
  obtain cs' m' where a: "a = (cs', m')" by (cases a)
  show ?case
  proof (cases "(cs, m) = a")
    case True
    with a have eq: "cs' = cs" "m' = m" by simp_all
    from Cons.prems(1) a eq have ne: "cs \<noteq> []" by simp
    have "filter (\<lambda>x. x \<in> Some ` set cs) (fst (draw_chars rnd cs m pos)) = fst (draw_chars rnd cs m pos)"
      using draw_chars_set [OF ne, of rnd m pos] by (auto simp: filter_id_conv)
    then show ?thesis
      by (simp add: a eq split_beta Let_def draw_chars_length)
  next
    case False
    with Cons.prems(2) have mem: "(cs, m) \<in> set sets" by auto
    from Cons.prems(1) have rest: "\<forall>(cs, m) \<in> set sets. cs \<noteq> []" by simp
    from Cons.IH [OF rest mem] show ?thesis
      by (simp add: a split_beta Let_def trans_le_add2)
  qed
qed

lemma shuffle_mset: "i < length xs \<Longrightarrow> mset (fst (shuffle rnd i xs pos)) = mset xs"
proof (induction i arbitrary: xs pos)
  case 0
  then show ?case by simp
next
  case (Suc i)
  let ?j = "unat (fst (getSecureRandomBytes rnd pos 1) ! 0) mod (Suc i + 1)"
  have "?j < Suc i + 1" by (rule mod_less_divisor) simp
  with Suc.prems have j: "?j < length xs" by linarith
  have sw: "mset (xs[Suc i := xs ! ?j, ?j := xs ! Suc i]) = mset xs"
    using mset_swap [OF j Suc.prems] by simp
  have "i < length (xs[Suc i := xs ! ?j, ?j := xs ! Suc i])" using Suc.prems by simp
  from Suc.IH [OF this] sw show ?case
    by (simp add: split_beta Let_def)
qed

lemma shuffle_pos: "snd (shuffle rnd i xs pos) = pos + i"
  by (induction i arbitrary: xs pos) (simp_all add: split_beta Let_def getSecureRandomBytes_def)

lemma shuffle_all_mset: "mset (fst (shuffle rnd (length xs - 1) xs pos)) = mset xs"
proof (cases xs)
  case Nil
  then show ?thesis by simp
next
  case (Cons a list)
  then have "length xs - 1 < length xs" by simp
  then show ?thesis by (rule shuffle_mset)
qed

lemma join_chars_mset:
  "mset xs = mset ys \<Longrightarrow> mset (join_chars xs) = mset (join_chars ys)"
proof -
  have "mset (join_chars zs) = (\<Sum>x \<in># mset zs. mset (join_element x))" for zs
    by (induction zs) (simp_all add: join_chars_def)
  then show "mset xs = mset ys \<Longrightarrow> ?thesis" by simp
qed

lemma join_chars_Some: "None \<notin> set xs \<Longrightarrow> map Some (join_chars xs) = xs"
proof (induction xs)
  case Nil
  then show ?case by (simp add: join_chars_def)
next
  case (Cons a xs)
  then obtain c where "a = Some c" by (cases a) auto
  with Cons show ?case by (simp add: join_chars_def)
qed

lemma join_chars_length: "None \<notin> set xs \<Longrightarrow> length (join_chars xs) = length xs"
  using join_chars_Some [of xs] by (metis length_map)

lemma build_character_sets_charset:
  "snd (build_character_sets options) = concat (map fst (fst (build_character_sets options)))"
  by (simp add: build_character_sets_def Let_def split_beta)

lemma generatePassword_value:
  "r_value (fst (generatePassword rnd pos len options)) =
     join_chars (fst (shuffle rnd (length (fst (draw_password rnd pos len options)) - 1)
                        (fst (draw_password rnd pos len options))
                        (snd (draw_password rnd pos len options))))"
  by (simp add: generatePassword_def split_beta Let_def)

lemma generatePassword_m_length:
  "m_length (r_metadata (fst (generatePassword rnd pos len options))) = len"
  by (simp add: generatePassword_def split_beta Let_def)

lemma draw_password_parts:
  "fst (draw_password rnd pos len options) =
     fst (meet_minimums rnd (fst (build_character_sets options)) pos)
     @ fst (draw_chars rnd (snd (build_character_sets options))
              (len - sum_list (map snd (fst (build_character_sets options))))
              (pos + sum_list (map snd (fst (build_character_sets options)))))"
  by (simp add: draw_password_def split_beta Let_def meet_minimums_length meet_minimums_pos)

lemma draw_password_length:
  "length (fst (draw_password rnd pos len options)) =
     max len (sum_list (map snd (fst (build_character_sets options))))"
  by (simp add: draw_password_parts meet_minimums_length draw_chars_length)

lemma draw_password_some:
  assumes "\<forall>(cs, m) \<in> set (fst (build_character_sets options)). cs \<noteq> []"
    and "snd (build_character_sets options) \<noteq> []
         \<or> len \<le> sum_list (map snd (fst (build_character_sets options)))"
  shows "None \<notin> set (fst (draw_password rnd pos len options))"
proof -
  let ?sets = "fst (build_character_sets options)"
  let ?charset = "snd (build_character_sets options)"
  have m: "None \<notin> set (fst (meet_minimums rnd ?sets pos))"
    by (rule meet_minimums_some [OF assms(1)])
  have f: "None \<notin> set (fst (draw_chars rnd ?charset (len - sum_list (map snd ?sets)) p))" for p
  proof (cases "?charset = []")
    case True
    with assms(2) have "len - sum_list (map snd ?sets) = 0" by simp
    then show ?thesis by simp
  next
    case False
    from draw_chars_set [OF False] show ?thesis by blast
  qed
  from m f show ?thesis by (simp add: draw_password_parts)
qed

lemma generatePassword_mset:
  "mset (r_value (fst (generatePassword rnd pos len options))) =
     mset (join_chars (fst (draw_password rnd pos len options)))"
  unfolding generatePassword_value
  by (rule join_chars_mset) (rule shuffle_all_mset)

lemma generatePassword_length_max:
  assumes "\<forall>(cs, m) \<in> set (fst (build_character_sets options)). cs \<noteq> []"
    and "snd (build_character_sets options) \<noteq> []
         \<or> len \<le> sum_list (map snd (fst (build_character_sets options)))"
  shows "length (r_value (fst (generatePassword rnd pos len options))) =
           max len (sum_list (map snd (fst (build_character_sets options))))"
proof -
  have "length (r_value (fst (generatePassword rnd pos len options))) =
          length (join_chars (fst (draw_password rnd pos len options)))"
    using generatePassword_mset [of rnd pos len options] by (metis size_mset)
  also have "\<dots> = length (fst (draw_password rnd pos len options))"
    by (rule join_chars_length [OF draw_password_some [OF assms]])
  finally show ?thesis by (simp add: draw_password_length)
qed

lemma filter_length_mset:
  "mset xs = mset ys \<Longrightarrow> length (filter P xs) = length (filter P ys)"
  by (metis mset_filter size_mset)

lemma generatePassword_minimums:
  assumes ne: "\<forall>(cs, m) \<in> set (fst (build_character_sets options)). cs \<noteq> []"
    and ch: "snd (build_character_sets options) \<noteq> []
         \<or> len \<le> sum_list (map snd (fst (build_character_sets options)))"
    and mem: "(cs, m) \<in> set (fst (build_character_sets options))"
  shows "m \<le> length (filter (\<lambda>c. c \<in> set cs) (r_value (fst (generatePassword rnd pos len options))))"
proof -
  let ?arr = "fst (draw_password rnd pos len options)"
  let ?sets = "fst (build_character_sets options)"
  have some: "map Some (join_chars ?arr) = ?arr"
    by (rule join_chars_Some [OF draw_password_some [OF ne ch]])
  have "m \<le> length (filter (\<lambda>x. x \<in> Some ` set cs) (fst (meet_minimums rnd ?sets pos)))"
    by (rule meet_minimums_count [OF ne mem])
  also have "\<dots> \<le> length (filter (\<lambda>x. x \<in> Some ` set cs) ?arr)"
    by (simp add: draw_password_parts)
  also have "\<dots> = length (filter (\<lambda>x. x \<in> Some ` set cs) (map Some (join_chars ?arr)))"
    by (simp only: some)
  also have "\<dots> = length (filter (\<lambda>c. c \<in> set cs) (join_chars ?arr))"
    by (simp add: filter_map comp_def image_iff)
  also have "\<dots> = length (filter (\<lambda>c. c \<in> set cs) (r_value (fst (generatePassword rnd pos len options))))"
    by (rule filter_length_mset [OF generatePassword_mset [symmetric]])
  finally show ?thesis .
qed

lemma charsets_nonempty:
  "CHARSETS_uppercase \<noteq> []" "CHARSETS_lowercase \<noteq> []" "CHARSETS_numbers \<noteq> []"
  "CHARSETS_special_safe \<noteq> []" "CHARSETS_alphanumeric \<noteq> []"
  by (simp_all add: CHARSETS_uppercase_def CHARSETS_lowercase_def CHARSETS_numbers_def
      CHARSETS_special_safe_def CHARSETS_alphanumeric_def)

lemma short_password_sets:
  "build_character_sets short_password_options =
     ([(CHARSETS_uppercase, 2), (CHARSETS_lowercase, 2), (CHARSETS_numbers, 2),
       (CHARSETS_special_safe, 1)],
      CHARSETS_uppercase @ CHARSETS_lowercase @ CHARSETS_numbers @ CHARSETS_special_safe)"
  by (simp add: build_character_sets_def short_password_options_def no_options_def Let_def)

lemma short_password_length:
  "length (r_value (fst (generatePassword rnd pos 4 short_password_options))) = 7"
proof -
  have "length (r_value (fst (generatePassword rnd pos 4 short_password_options))) =
          max 4 (sum_list (map snd (fst (build_character_sets short_password_options))))"
    by (rule generatePassword_length_max) (simp_all add: short_password_sets charsets_nonempty)
  then show ?thesis by (simp add: short_password_sets)
qed

lemma empty_special_sets:
  "build_character_sets empty_special_options =
     ([(CHARSETS_uppercase, 1), (CHARSETS_lowercase, 1), (CHARSETS_numbers, 1), ([], 1)],
      CHARSETS_uppercase @ CHARSETS_lowercase @ CHARSETS_numbers)"
  by (simp add: build_character_sets_def empty_special_options_def no_options_def Let_def)

lemma join_chars_length_filter:
  "length (join_chars xs) = length (filter (\<lambda>x. x \<noteq> None) xs)"
proof (induction xs)
  case Nil
  then show ?case by (simp add: join_chars_def)
next
  case (Cons a xs)
  then show ?case by (cases a) (simp_all add: join_chars_def)
qed

lemma pick_eq_None: "pick chars b = None \<longleftrightarrow> chars = []"
  by (simp add: pick_def)

lemma draw_chars_empty: "fst (draw_chars rnd [] n pos) = replicate n None"
  by (induction n arbitrary: pos) (simp_all add: split_beta Let_def pick_def)

lemma draw_chars_filter:
  "length (filter (\<lambda>x. x \<noteq> None) (fst (draw_chars rnd chars n pos))) =
     (if chars = [] then 0 else n)"
proof (cases "chars = []")
  case True
  then show ?thesis by (simp add: draw_chars_empty)
next
  case False
  have "filter (\<lambda>x. x \<noteq> None) (fst (draw_chars rnd chars n pos)) = fst (draw_chars rnd chars n pos)"
    using draw_chars_set [OF False, of rnd n pos] by (auto simp: filter_id_conv)
  with False show ?thesis by (simp add: draw_chars_length)
qed

lemma meet_minimums_filter:
  "length (filter (\<lambda>x. x \<noteq> None) (fst (meet_minimums rnd sets pos))) =
     sum_list (map snd (filter (\<lambda>(cs, m). cs \<noteq> []) sets))"
  by (induction sets arbitrary: pos)
     (auto simp add: split_beta Let_def draw_chars_filter simp del: not_None_eq)

lemma generatePassword_length:
  "length (r_value (fst (generatePassword rnd pos len options))) =
     sum_list (map snd (filter (\<lambda>(cs, m). cs \<noteq> []) (fst (build_character_sets options))))
     + (if snd (build_character_sets options) = [] then 0
        else len - sum_list (map snd (fst (build_character_sets options))))"
proof -
  let ?arr = "fst (draw_password rnd pos len options)"
  have "length (r_value (fst (generatePassword rnd pos len options))) = length (join_chars ?arr)"
    using generatePassword_mset [of rnd pos len options] by (metis size_mset)
  also have "\<dots> = length (filter (\<lambda>x. x \<noteq> None) ?arr)"
    by (rule join_chars_length_filter)
  finally show ?thesis
    by (simp add: draw_password_parts meet_minimums_filter draw_chars_filter del: not_None_eq)
qed

text \<open>
  What \<^verbatim>\<open>generatePassword\<close> guarantees when every enabled class has at least one
  character: if the minimums of the enabled classes sum to at most the length, then
  for every stream of random bytes the password has exactly that length, holds at
  least the minimum of each enabled class, and is a permutation of the characters
  drawn before the shuffle.
\<close>

lemma generatePassword_meets_requirements:
  assumes ne: "\<forall>(cs, m) \<in> set (fst (build_character_sets options)). cs \<noteq> []"
    and en: "fst (build_character_sets options) \<noteq> []"
    and le: "sum_list (map snd (fst (build_character_sets options))) \<le> len"
  shows "length (r_value (fst (generatePassword rnd pos len options))) = len
    \<and> (\<forall>(cs, m) \<in> set (fst (build_character_sets options)).
          m \<le> length (filter (\<lambda>c. c \<in> set cs) (r_value (fst (generatePassword rnd pos len options)))))
    \<and> mset (r_value (fst (generatePassword rnd pos len options)))
        = mset (join_chars (fst (draw_password rnd pos len options)))"
proof -
  obtain cs0 m0 rest where s: "fst (build_character_sets options) = (cs0, m0) # rest"
    using en by (cases "fst (build_character_sets options)") auto
  with ne have "cs0 \<noteq> []" by simp
  then have ch: "snd (build_character_sets options) \<noteq> []"
    by (simp add: build_character_sets_charset s)
  then have ch': "snd (build_character_sets options) \<noteq> []
         \<or> len \<le> sum_list (map snd (fst (build_character_sets options)))" by simp
  have l: "length (r_value (fst (generatePassword rnd pos len options))) = len"
    using generatePassword_length_max [OF ne ch', of rnd pos] le by simp
  have m: "\<forall>(cs, m) \<in> set (fst (build_character_sets options)).
          m \<le> length (filter (\<lambda>c. c \<in> set cs) (r_value (fst (generatePassword rnd pos len options))))"
    using generatePassword_minimums [OF ne ch'] by blast
  from l m generatePassword_mset show ?thesis by blast
qed

text \<open>
  With the defaults (a minimum of 1 for each of the four classes) and length 8 no
  class is ever missing.
\<close>

lemma default_password_sets:
  "build_character_sets no_options =
     ([(CHARSETS_uppercase, 1), (CHARSETS_lowercase, 1), (CHARSETS_numbers, 1),
       (CHARSETS_special_safe, 1)],
      CHARSETS_uppercase @ CHARSETS_lowercase @ CHARSETS_numbers @ CHARSETS_special_safe)"
  by (simp add: build_character_sets_def no_options_def Let_def)

lemma generatePassword_default_classes:
  "length (r_value (fst (generatePassword rnd pos 8 no_options))) = 8
   \<and> 1 \<le> length (filter (\<lambda>c. c \<in> set CHARSETS_uppercase) (r_value (fst (generatePassword rnd pos 8 no_options))))
   \<and> 1 \<le> length (filter (\<lambda>c. c \<in> set CHARSETS_lowercase) (r_value (fst (generatePassword rnd pos 8 no_options))))
   \<and> 1 \<le> length (filter (\<lambda>c. c \<in> set CHARSETS_numbers) (r_value (fst (generatePassword rnd pos 8 no_options))))
   \<and> 1 \<le> length (filter (\<lambda>c. c \<in> set CHARSETS_special_safe) (r_value (fst (generatePassword rnd pos 8 no_options))))"
proof -
  have ne: "\<forall>(cs, m) \<in> set (fst (build_character_sets no_options)). cs \<noteq> []"
    by (simp add: default_password_sets charsets_nonempty)
  have en: "fst (build_character_sets no_options) \<noteq> []"
    by (simp add: default_password_sets)
  have le: "sum_list (map snd (fst (build_character_sets no_options))) \<le> 8"
    by (simp add: default_password_sets)
  from generatePassword_meets_requirements [OF ne en le, of rnd pos]
  show ?thesis by (simp add: default_password_sets)
qed

text \<open>
  C6 asks for a password of exactly the requested length, with the minimum of every
  enabled class, for every option object whose minimums fit the length. The lemma
  above needs each enabled class to have a character, and the code does not check
  that: with \<^verbatim>\<open>special_char_set\<close> set to the empty string the class of special
  characters is enabled and empty, the one character drawn for its minimum is
  \<^verbatim>\<open>undefined\<close>, and \<^verbatim>\<open>join\<close> drops it. For length 8 the password has 7
  characters, for every stream of random bytes, while the metadata records the
  length 8.
\<close>

theorem generatePassword_empty_special_set:
  "length (r_value (fst (generatePassword rnd pos 8 empty_special_options))) = 7
   \<and> m_length (r_metadata (fst (generatePassword rnd pos 8 empty_special_options))) = 8"
  by (simp add: generatePassword_length generatePassword_m_length empty_special_sets
      charsets_nonempty)

section \<open>Validation of password requests\<close>

text \<open>
  C2 asks that the core password generator reject a length below the sum of the
  minimums. \<^verbatim>\<open>generatePassword\<close> has no such check and no error to return: for
  length 4 with minimums 2, 2, 2 (and the default 1 for special characters, a sum of
  7) it returns a password of 7 characters.
\<close>

theorem generatePassword_core_accepts:
  "sum_list (map snd (fst (build_character_sets short_password_options))) = 7
   \<and> length (r_value (fst (generatePassword sample_stream 0 4 short_password_options))) = 7"
  by (simp add: short_password_sets short_password_length)

text \<open>
  C2 as amended: the check is made by the handler of the \<^verbatim>\<open>generatePassword\<close> tool.
  When the four minimum counts sum to more than the length,
  \<^verbatim>\<open>validatePasswordSecurity\<close> reports it and the handler answers with the
  validation error; the generator is not called and no random byte is drawn.
\<close>

theorem generatePassword_tool_rejects:
  assumes "pa_min_uppercase args + pa_min_lowercase args + pa_min_numbers args
             + pa_min_special args > pa_length args"
  shows "\<exists>errors. generatePassword_tool rnd pos args = (PasswordSecurityValidationFailed errors, pos)
           \<and> hd errors = ''Sum of minimum character requirements exceeds password length''"
  using assms
  by (simp add: generatePassword_tool_def validatePasswordSecurity_def Let_def)

theorem generatePassword_tool_rejects_witness:
  "pa_min_uppercase sample_password_args + pa_min_lowercase sample_password_args
     + pa_min_numbers sample_password_args + pa_min_special sample_password_args
     > pa_length sample_password_args
   \<and> generatePassword_tool sample_stream 0 sample_password_args =
       (PasswordSecurityValidationFailed
          [''Sum of minimum character requirements exceeds password length''], 0)"
proof -
  have h: "pa_min_uppercase sample_password_args + pa_min_lowercase sample_password_args
     + pa_min_numbers sample_password_args + pa_min_special sample_password_args
     > pa_length sample_password_args"
    by (simp add: sample_password_args_def)
  from generatePassword_tool_rejects [OF h, of sample_stream 0]
  show ?thesis
    using h by (simp add: generatePassword_tool_def validatePasswordSecurity_def Let_def
        sample_password_args_def)
qed

section \<open>Random strings over an empty charset\<close>

lemma undefined_for_each_byte:
  "concat (map (\<lambda>b. to_string (pick [] b)) bytes) = concat (replicate (length bytes) ''undefined'')"
  by (induction bytes) (simp_all add: pick_def)

lemma generateRandomString_empty_charset_value:
  assumes "string_charset options = []"
  shows "r_value (fst (generateRandomString rnd pos len options)) =
           addAffixes (applyCase (concat (replicate len ''undefined'')) (o_case options))
             (o_prefix options) (o_suffix options)"
  by (simp add: generateRandomString_def assms split_beta Let_def undefined_for_each_byte
      length_getSecureRandomBytes)

lemma excluded_all_charset: "string_charset excluded_all_options = []"
  by (simp add: string_charset_def excluded_all_options_def no_options_def Let_def)

text \<open>
  C4 asks that \<^verbatim>\<open>generateRandomString\<close> fail when the exclusions leave no character.
  It does not fail: the default for an empty charset is applied before the exclusions
  and nothing checks the charset after them. With the custom charset \<^verbatim>\<open>abc\<close> and the
  excluded characters \<^verbatim>\<open>abc\<close> the charset is empty, every read of it is
  \<^verbatim>\<open>undefined\<close>, and the value returned for length 4 is that word four times, for
  every stream of random bytes.
\<close>

theorem generateRandomString_empty_charset:
  "string_charset excluded_all_options = []
   \<and> r_value (fst (generateRandomString rnd pos 4 excluded_all_options))
       = ''undefinedundefinedundefinedundefined''
   \<and> m_entropy_bits (r_metadata (fst (generateRandomString rnd pos 4 excluded_all_options)))
       = CalculateEntropy 0 4"
proof -
  have c: "o_case excluded_all_options = None" "o_prefix excluded_all_options = None"
    "o_suffix excluded_all_options = None"
    by (simp_all add: excluded_all_options_def no_options_def)
  have r: "concat (replicate 4 ''undefined'') = ''undefinedundefinedundefinedundefined''"
    by (simp add: numeral_eq_Suc)
  have v: "r_value (fst (generateRandomString rnd pos 4 excluded_all_options))
       = ''undefinedundefinedundefinedundefined''"
    by (simp only: generateRandomString_empty_charset_value [OF excluded_all_charset] c r)
       (simp add: addAffixes_def)
  have e: "m_entropy_bits (r_metadata (fst (generateRandomString rnd pos 4 excluded_all_options)))
       = CalculateEntropy 0 4"
    by (simp add: generateRandomString_def excluded_all_charset split_beta Let_def)
  from excluded_all_charset v e show ?thesis by (intro conjI)
qed

section \<open>The random part of a ULID\<close>

lemma length_base32: "length base32 = 32"
  by (simp add: base32_def)

lemma base32_sorted: "sorted_wrt (<) (map (of_char :: char \<Rightarrow> nat) base32)"
  by (simp add: base32_def)

lemma base32_increasing:
  assumes "a < b" "b < 32"
  shows "(of_char (base32 ! a) :: nat) < of_char (base32 ! b)"
proof -
  have "map (of_char :: char \<Rightarrow> nat) base32 ! a < map of_char base32 ! b"
    using sorted_wrt_nth_less [OF base32_sorted, of a b] assms by (simp add: length_base32)
  with assms show ?thesis by (simp add: length_base32)
qed

lemma encode_timestamp_append:
  "encode_timestamp n temp ulid = encode_timestamp n temp [] @ ulid"
proof (induction n arbitrary: temp ulid)
  case 0
  then show ?case by simp
next
  case (Suc n)
  have "encode_timestamp (Suc n) temp ulid =
          encode_timestamp n (temp div 32) [] @ (base32 ! (temp mod 32) # ulid)"
    using Suc.IH [of "temp div 32" "base32 ! (temp mod 32) # ulid"] by simp
  moreover have "encode_timestamp (Suc n) temp [] =
          encode_timestamp n (temp div 32) [] @ [base32 ! (temp mod 32)]"
    using Suc.IH [of "temp div 32" "[base32 ! (temp mod 32)]"] by simp
  ultimately show ?case by simp
qed

lemma encode_timestamp_Suc:
  "encode_timestamp (Suc n) temp [] =
     encode_timestamp n (temp div 32) [] @ [base32 ! (temp mod 32)]"
  using encode_timestamp_append [of n "temp div 32" "[base32 ! (temp mod 32)]"] by simp

lemma length_encode_timestamp: "length (encode_timestamp n temp []) = n"
  by (induction n arbitrary: temp) (simp_all add: encode_timestamp_Suc del: encode_timestamp.simps(2))

lemma set_encode_timestamp: "set (encode_timestamp n temp []) \<subseteq> set base32"
proof (induction n arbitrary: temp)
  case 0
  then show ?case by simp
next
  case (Suc n)
  have "base32 ! (temp mod 32) \<in> set base32"
    by (rule nth_mem) (simp add: length_base32)
  with Suc.IH [of "temp div 32"] show ?case
    by (simp add: encode_timestamp_Suc del: encode_timestamp.simps(2))
qed

lemma string_less_append_same:
  "string_less xs ys \<Longrightarrow> length xs = length ys \<Longrightarrow> string_less (xs @ s) (ys @ t)"
proof (induction xs ys rule: string_less.induct)
  case (4 x xs y ys)
  then show ?case by auto
qed simp_all

lemma string_less_prefix: "string_less s t \<Longrightarrow> string_less (xs @ s) (xs @ t)"
  by (induction xs) simp_all

lemma encode_timestamp_mono:
  assumes "t1 < t2" "t2 < 32 ^ n"
  shows "string_less (encode_timestamp n t1 [] @ s1) (encode_timestamp n t2 [] @ s2)"
  using assms
proof (induction n arbitrary: t1 t2 s1 s2)
  case 0
  then show ?case by simp
next
  case (Suc n)
  have b2: "t2 div 32 < 32 ^ n" using Suc.prems(2) by (simp add: less_mult_imp_div_less mult.commute)
  show ?case
  proof (cases "t1 div 32 < t2 div 32")
    case True
    from Suc.IH [OF True b2] show ?thesis
      by (simp add: encode_timestamp_Suc del: encode_timestamp.simps(2))
  next
    case False
    with Suc.prems(1) have eq: "t1 div 32 = t2 div 32"
      by (meson div_le_mono le_neq_implies_less less_imp_le_nat)
    with Suc.prems(1) have "t1 mod 32 < t2 mod 32"
      by (metis add_less_cancel_left mult_div_mod_eq)
    then have "(of_char (base32 ! (t1 mod 32)) :: nat) < of_char (base32 ! (t2 mod 32))"
      by (rule base32_increasing) simp
    then have "string_less (base32 ! (t1 mod 32) # s1) (base32 ! (t2 mod 32) # s2)"
      by simp
    from string_less_prefix [OF this, of "encode_timestamp n (t2 div 32) []"] eq show ?thesis
      by (simp add: encode_timestamp_Suc del: encode_timestamp.simps(2))
  qed
qed

lemma generateUlid_value:
  "r_value (fst (generateUlid rnd pos timestamp)) =
     encode_timestamp 10 timestamp []
     @ map (\<lambda>i. base32 ! (unat (map rnd [pos..<pos + 10] ! (i * 10 div 16)) mod 32)) [0..<16]"
  by (simp add: generateUlid_def getSecureRandomBytes_def Let_def del: encode_timestamp.simps(2))

text \<open>
  The parts of the ULID that are as the specification has them: 26 characters of the
  Crockford alphabet, the first 10 the timestamp in base 32, and a ULID with the
  later timestamp (below \<open>2 ^ 50\<close>, where the ten digits wrap) is the greater string,
  whatever the random parts.
\<close>

lemma generateUlid_format:
  "length (r_value (fst (generateUlid rnd pos timestamp))) = 26
   \<and> set (r_value (fst (generateUlid rnd pos timestamp))) \<subseteq> set base32
   \<and> take 10 (r_value (fst (generateUlid rnd pos timestamp))) = encode_timestamp 10 timestamp []"
proof -
  have "base32 ! (n mod 32) \<in> set base32" for n
    by (rule nth_mem) (simp add: length_base32)
  then have "set (map (\<lambda>i. base32 ! (unat (map rnd [pos..<pos + 10] ! (i * 10 div 16)) mod 32)) [0..<16])
      \<subseteq> set base32"
    by auto
  with set_encode_timestamp [of 10 timestamp] show ?thesis
    by (simp add: generateUlid_value length_encode_timestamp del: encode_timestamp.simps(2))
qed

lemma generateUlid_sortable:
  assumes "t1 < t2" "t2 < 2 ^ 50"
  shows "string_less (r_value (fst (generateUlid rnd1 pos1 t1)))
                     (r_value (fst (generateUlid rnd2 pos2 t2)))"
proof -
  have "t2 < 32 ^ 10" using assms(2) by simp
  from encode_timestamp_mono [OF assms(1) this] show ?thesis
    by (simp only: generateUlid_value)
qed

lemma low_five_bits: "unat ((b :: byte) AND 0x1f) mod 32 = unat b mod 32"
proof -
  have "b AND 0x1f = b AND mask 5" by (simp add: mask_eq_exp_minus_1)
  also have "\<dots> = take_bit 5 b" by (simp only: take_bit_eq_mask)
  also have "\<dots> = b mod 2 ^ 5" by (simp only: take_bit_eq_mod)
  finally have "unat (b AND 0x1f) = unat (b mod 32)" by simp
  then show ?thesis by (simp add: unat_mod)
qed

lemma ulid_byte_index: "i < 16 \<Longrightarrow> i * 10 div 16 < (10::nat)"
  by arith

lemma generateUlid_low_bits:
  "generateUlid (\<lambda>i. rnd i AND 0x1f) pos timestamp = generateUlid rnd pos timestamp"
proof -
  have "map (\<lambda>i. base32 ! (unat (map (\<lambda>i. rnd i AND 0x1f) [pos..<pos + 10] ! (i * 10 div 16)) mod 32)) [0..<16]
     = map (\<lambda>i. base32 ! (unat (map rnd [pos..<pos + 10] ! (i * 10 div 16)) mod 32)) [0..<16]"
  proof (intro map_cong refl)
    fix i assume "i \<in> set [0..<16]"
    then have k: "i * 10 div 16 < 10" using ulid_byte_index [of i] by simp
    then have "map (\<lambda>i. rnd i AND 0x1f) [pos..<pos + 10] ! (i * 10 div 16)
        = (map rnd [pos..<pos + 10] ! (i * 10 div 16)) AND 0x1f"
      by (simp only: nth_map length_upt add_diff_cancel_left')
    then show "base32 ! (unat (map (\<lambda>i. rnd i AND 0x1f) [pos..<pos + 10] ! (i * 10 div 16)) mod 32)
        = base32 ! (unat (map rnd [pos..<pos + 10] ! (i * 10 div 16)) mod 32)"
      by (simp only: low_five_bits)
  qed
  then show ?thesis
    by (simp add: generateUlid_def getSecureRandomBytes_def Let_def)
qed

text \<open>
  C5 asks that the 16 random characters of a ULID carry the 80 bits of the 10 random
  bytes. Each character is a byte modulo 32, and six of the ten bytes are read twice,
  so the characters depend on the low five bits of each byte only
  (\<open>generateUlid_low_bits\<close>): the streams of constant bytes 32 and 0 differ in all ten
  bytes and give the same ULID at the same timestamp, while \<^verbatim>\<open>entropy_bits\<close> is
  reported as 80. The format and the order by timestamp hold (\<open>generateUlid_format\<close>,
  \<open>generateUlid_sortable\<close>).
\<close>

theorem generateUlid_random_part_collision:
  "fst (getSecureRandomBytes (constant_stream 32) 0 10) \<noteq> fst (getSecureRandomBytes (constant_stream 0) 0 10)
   \<and> generateUlid (constant_stream 32) 0 1700000000000 = generateUlid (constant_stream 0) 0 1700000000000
   \<and> m_entropy_bits (r_metadata (fst (generateUlid (constant_stream 32) 0 1700000000000))) = Bits 80"
proof -
  have a: "fst (getSecureRandomBytes (constant_stream 32) 0 10) \<noteq> fst (getSecureRandomBytes (constant_stream 0) 0 10)"
    by (simp add: getSecureRandomBytes_def constant_stream_def upt_rec)
  have "(\<lambda>i. constant_stream 32 i AND 0x1f) = constant_stream 0"
    by (simp add: constant_stream_def fun_eq_iff)
  with generateUlid_low_bits [of "constant_stream 32" 0 1700000000000]
  have b: "generateUlid (constant_stream 32) 0 1700000000000 = generateUlid (constant_stream 0) 0 1700000000000"
    by simp
  have c: "m_entropy_bits (r_metadata (fst (generateUlid (constant_stream 32) 0 1700000000000))) = Bits 80"
    by (simp add: generateUlid_def split_beta Let_def)
  from a b c show ?thesis by (intro conjI)
qed

section \<open>The length recorded in the metadata\<close>

lemma length_bytesToBase64: "length (bytesToBase64 bytes) = 4 * ((length bytes + 2) div 3)"
proof (induction bytes rule: bytesToBase64.induct)
  case (4 a b c rest)
  have "(length rest + 5) div 3 = (length rest + 2) div 3 + 1" by arith
  with 4 show ?case by (simp add: add.commute)
qed simp_all

lemma length_picked:
  "chars \<noteq> [] \<Longrightarrow> length (concat (map (\<lambda>b. to_string (pick chars b)) bytes)) = length bytes"
  by (induction bytes) (simp_all add: pick_def)

lemma alphanumeric_charset:
  "string_charset (no_options \<lparr> o_include_uppercase := Some True, o_include_lowercase := Some True,
          o_include_numbers := Some True, o_include_special_chars := Some False \<rparr>)
   = CHARSETS_uppercase @ CHARSETS_lowercase @ CHARSETS_numbers"
  by (simp add: string_charset_def no_options_def Let_def charsets_nonempty)

lemma length_generateAlphanumeric:
  "length (r_value (fst (generateAlphanumeric rnd pos len))) = len"
proof -
  define opts where "opts = no_options \<lparr> o_include_uppercase := Some True,
    o_include_lowercase := Some True, o_include_numbers := Some True,
    o_include_special_chars := Some False \<rparr>"
  have cs: "string_charset opts = CHARSETS_uppercase @ CHARSETS_lowercase @ CHARSETS_numbers"
    unfolding opts_def by (rule alphanumeric_charset)
  have n: "o_case opts = None" "o_prefix opts = None" "o_suffix opts = None"
    by (simp_all add: opts_def no_options_def)
  have g: "generateAlphanumeric rnd pos len = generateRandomString rnd pos len opts"
    by (simp add: generateAlphanumeric_def opts_def)
  have "CHARSETS_uppercase @ CHARSETS_lowercase @ CHARSETS_numbers \<noteq> []"
    by (simp add: charsets_nonempty)
  from length_picked [OF this] show ?thesis
    by (simp add: g generateRandomString_def cs n split_beta Let_def
        length_getSecureRandomBytes addAffixes_def)
qed

lemma length_generateApiKey_base64:
  "length (r_value (fst (generateApiKey rnd pos ''base64'' 40))) = 40"
  apply (simp add: generateApiKey_def split_beta Let_def slice_def)
  apply (simp add: length_bytesToBase64)
  apply (simp add: length_getSecureRandomBytes)
  done

lemma length_aws_value:
  "length (r_value (fst (generateAwsCredentials rnd pos))) = 102"
  by (simp add: generateAwsCredentials_def split_beta Let_def stringify_credentials_indent2_def
      json_string_def length_generateAlphanumeric length_generateApiKey_base64)

lemma length_aws_metadata:
  "m_length (r_metadata (fst (generateAwsCredentials rnd pos))) = 93"
  by (simp add: generateAwsCredentials_def split_beta Let_def stringify_credentials_def
      json_string_def length_generateAlphanumeric length_generateApiKey_base64)

lemma generateRandomString_m_length:
  "m_length (r_metadata (fst (generateRandomString rnd pos len options))) =
     length (r_value (fst (generateRandomString rnd pos len options)))"
  by (simp add: generateRandomString_def split_beta Let_def)

text \<open>
  C3 asks that the metadata entry \<^verbatim>\<open>length\<close> be the number of characters of
  \<^verbatim>\<open>value\<close> for every generator. \<^verbatim>\<open>generateRandomString\<close> stores
  \<^verbatim>\<open>result.length\<close> (\<open>generateRandomString_m_length\<close>), but two generators store
  something else. \<^verbatim>\<open>generatePassword\<close> stores the requested length: with length 4
  and minimums 2, 2, 2 (and the default 1) the value has 7 characters and
  \<^verbatim>\<open>length\<close> is 4. \<^verbatim>\<open>generateAwsCredentials\<close> returns the JSON text indented by 2
  as its value, 102 characters, and stores the length of the compact JSON text, 93.
  Both hold for every stream of random bytes.
\<close>

theorem metadata_length_mismatch:
  "length (r_value (fst (generatePassword rnd pos 4 short_password_options))) = 7
   \<and> m_length (r_metadata (fst (generatePassword rnd pos 4 short_password_options))) = 4
   \<and> length (r_value (fst (generateAwsCredentials rnd pos))) = 102
   \<and> m_length (r_metadata (fst (generateAwsCredentials rnd pos))) = 93"
  by (simp add: short_password_length generatePassword_m_length length_aws_value
      length_aws_metadata)

section \<open>Initialization vectors\<close>

lemma length_sample_bytes: "length (map rnd [pos..<pos + n]) = n"
  by simp

lemma generateIv_result:
  "generateIv rnd pos algorithm =
     (let size = or_number (map_of ivSizes (toLowerCase algorithm)) 16
      in (\<lparr> r_value = bytesToHex (map rnd [pos..<pos + size]),
            r_name = ''initialization_vector'',
            r_description =
              ''Generated initialization vector for '' @ algorithm @ '' encryption'',
            r_metadata = \<lparr> m_type = ''initialization_vector'', m_length = 2 * size,
              m_algorithm = algorithm, m_entropy_bits = Bits (size * 8),
              m_charset = Some ''hex'', m_security_level = Level ''high'',
              m_extra = [(''byte_size'', ExNum size)] \<rparr> \<rparr>, pos + size))"
  by (simp add: generateIv_def getSecureRandomBytes_def Let_def length_bytesToHex)

text \<open>
  C8 as amended: \<^verbatim>\<open>generateIv\<close> draws 16 bytes for \<^verbatim>\<open>aes128\<close>, \<^verbatim>\<open>aes192\<close> and
  \<^verbatim>\<open>aes256\<close>, 8 for \<^verbatim>\<open>des\<close> and \<^verbatim>\<open>blowfish\<close> and 12 for \<^verbatim>\<open>chacha20\<close>, the name
  compared in lower case, and returns twice as many hexadecimal digits. For every
  other name (the two inherited member names apart) the call succeeds with 16 bytes,
  and its result is written out below: the metadata holds the name as it was passed
  and \<^verbatim>\<open>byte_size\<close> 16, and no entry that tells the default from a size of the table.
\<close>

theorem generateIv_sizes:
  "(toLowerCase algorithm \<in> set [''aes128'', ''aes192'', ''aes256'']
      \<longrightarrow> map_of (m_extra (r_metadata (fst (generateIv rnd pos algorithm)))) ''byte_size'' = Some (ExNum 16)
        \<and> length (r_value (fst (generateIv rnd pos algorithm))) = 32)
   \<and> (toLowerCase algorithm \<in> set [''des'', ''blowfish'']
      \<longrightarrow> map_of (m_extra (r_metadata (fst (generateIv rnd pos algorithm)))) ''byte_size'' = Some (ExNum 8)
        \<and> length (r_value (fst (generateIv rnd pos algorithm))) = 16)
   \<and> (toLowerCase algorithm = ''chacha20''
      \<longrightarrow> map_of (m_extra (r_metadata (fst (generateIv rnd pos algorithm)))) ''byte_size'' = Some (ExNum 12)
        \<and> length (r_value (fst (generateIv rnd pos algorithm))) = 24)
   \<and> (toLowerCase algorithm \<notin> set (map fst ivSizes)
        \<and> toLowerCase algorithm \<notin> set inherited_property_names
      \<longrightarrow> generateIv rnd pos algorithm =
          (\<lparr> r_value = bytesToHex (map rnd [pos..<pos + 16]),
             r_name = ''initialization_vector'',
             r_description =
               ''Generated initialization vector for '' @ algorithm @ '' encryption'',
             r_metadata = \<lparr> m_type = ''initialization_vector'', m_length = 32,
               m_algorithm = algorithm, m_entropy_bits = Bits 128,
               m_charset = Some ''hex'', m_security_level = Level ''high'',
               m_extra = [(''byte_size'', ExNum 16)] \<rparr> \<rparr>, pos + 16))"
proof -
  have unknown: "toLowerCase algorithm \<notin> set (map fst ivSizes)
      \<Longrightarrow> or_number (map_of ivSizes (toLowerCase algorithm)) 16 = 16"
    by (simp add: ivSizes_def)
  show ?thesis
    apply (intro conjI impI)
    apply (auto simp add: generateIv_result Let_def ivSizes_def length_bytesToHex)
    done
qed

text \<open>
  C8 asks that the metadata show when the default size was used. It has no such
  entry: \<^verbatim>\<open>foo\<close> is not in the table and \<^verbatim>\<open>aes256\<close> is, and on the same random bytes
  the two calls return the same value and the same metadata, apart from the
  algorithm name that the caller passed.
\<close>

theorem generateIv_fallback_not_in_metadata:
  "map_of ivSizes (toLowerCase ''foo'') = None
   \<and> map_of ivSizes (toLowerCase ''aes256'') = Some 16
   \<and> r_metadata (fst (generateIv sample_stream 0 ''foo''))
       = (r_metadata (fst (generateIv sample_stream 0 ''aes256''))) \<lparr> m_algorithm := ''foo'' \<rparr>
   \<and> r_value (fst (generateIv sample_stream 0 ''foo''))
       = r_value (fst (generateIv sample_stream 0 ''aes256''))"
  by (simp add: generateIv_result Let_def ivSizes_def toLowerCase_def)

theorem generateIv_sizes_witness:
  "toLowerCase ''AES256'' \<in> set [''aes128'', ''aes192'', ''aes256'']
   \<and> length (r_value (fst (generateIv sample_stream 0 ''AES256''))) = 32
   \<and> toLowerCase ''des'' \<in> set [''des'', ''blowfish'']
   \<and> length (r_value (fst (generateIv sample_stream 0 ''des''))) = 16
   \<and> toLowerCase ''ChaCha20'' = ''chacha20''
   \<and> length (r_value (fst (generateIv sample_stream 0 ''ChaCha20''))) = 24
   \<and> toLowerCase ''foo'' \<notin> set (map fst ivSizes)
   \<and> toLowerCase ''foo'' \<notin> set inherited_property_names
   \<and> snd (generateIv sample_stream 0 ''foo'') = 16
   \<and> m_extra (r_metadata (fst (generateIv sample_stream 0 ''foo''))) = [(''byte_size'', ExNum 16)]"
proof -
  have la: "toLowerCase ''AES256'' = ''aes256''" by code_simp
  have ld: "toLowerCase ''des'' = ''des''" by code_simp
  have lc: "toLowerCase ''ChaCha20'' = ''chacha20''" by code_simp
  have lf: "toLowerCase ''foo'' = ''foo''" by code_simp
  have f: "toLowerCase ''foo'' \<notin> set (map fst ivSizes)"
    "toLowerCase ''foo'' \<notin> set inherited_property_names"
    by (simp_all add: lf ivSizes_def inherited_property_names_def)
  have w1: "length (r_value (fst (generateIv sample_stream 0 ''AES256''))) = 32"
    using generateIv_sizes [of "''AES256''" sample_stream 0] by (simp add: la)
  have w2: "length (r_value (fst (generateIv sample_stream 0 ''des''))) = 16"
    using generateIv_sizes [of "''des''" sample_stream 0] by (simp add: ld)
  have w3: "length (r_value (fst (generateIv sample_stream 0 ''ChaCha20''))) = 24"
    using generateIv_sizes [of "''ChaCha20''" sample_stream 0] by (simp add: lc)
  have w4: "snd (generateIv sample_stream 0 ''foo'') = 16
    \<and> m_extra (r_metadata (fst (generateIv sample_stream 0 ''foo''))) = [(''byte_size'', ExNum 16)]"
    using generateIv_sizes [of "''foo''" sample_stream 0] f by simp
  from w1 w2 w3 w4 f show ?thesis by (simp add: la ld lc)
qed

section \<open>Limits of a batch\<close>

lemma foldl_count_sum:
  "foldl (\<lambda>sum req. sum + b_count req) a requests = a + sum_list (map b_count requests)"
  by (induction requests arbitrary: a) simp_all

lemma validateBatchSecurity_errors:
  "validateBatchSecurity requests =
     (sum_list (map b_count requests) \<le> 100 \<and> (\<forall>req \<in> set requests. b_count req \<le> 20),
      (if sum_list (map b_count requests) > 100
       then [''Total batch items cannot exceed 100 for resource protection''] else [])
      @ (if \<exists>req \<in> set requests. b_count req > 20
         then [''Individual request count cannot exceed 20 for resource protection''] else []))"
  by (auto simp add: validateBatchSecurity_def Let_def foldl_count_sum filter_empty_conv
      not_le not_less)

text \<open>
  \<^verbatim>\<open>generateBatch\<close> itself has no limit: called with one request for 21 UUIDs it
  generates them all.
\<close>

lemma uuid4_items:
  "\<exists>items. generate_items rnd now ''uuid4'' opts n pos = (Inr items, pos + 16 * n)
      \<and> length items = n"
proof (induction n arbitrary: pos)
  case 0
  then show ?case by simp
next
  case (Suc n)
  have c: "generate_credential rnd now pos ''uuid4'' opts
             = (Inr (fst (generateUuid4 rnd pos)), pos + 16)"
    by (simp add: generate_credential_def generateUuid4_def getSecureRandomBytes_def
        split_beta Let_def)
  from Suc [of "pos + 16"] obtain items where
    "generate_items rnd now ''uuid4'' opts n (pos + 16) = (Inr items, pos + 16 + 16 * n)"
    "length items = n" by blast
  with c show ?case by simp
qed

lemma generateBatch_no_limit:
  "\<exists>res. generateBatch rnd now pos [\<lparr> b_type = ''uuid4'', b_count = 21, b_options = None \<rparr>]
            = (Inr res, pos + 336)
         \<and> br_total_items res = 21
         \<and> length (concat (map snd (br_results res))) = 21"
proof -
  from uuid4_items [of rnd now no_options 21 pos] obtain items where
    "generate_items rnd now ''uuid4'' no_options 21 pos = (Inr items, pos + 16 * 21)"
    "length items = 21" by blast
  then show ?thesis
    by (simp add: generateBatch_def Let_def)
qed

text \<open>
  C1: a batch whose counts sum to more than 100, or that has an entry with a count
  above 20, is refused before anything is generated. The check is
  \<^verbatim>\<open>validateBatchSecurity\<close>, which the handler of the \<^verbatim>\<open>generateBatch\<close> tool runs
  before it calls the generator: the answer is the validation error with the
  resource-protection messages, it holds no results, and the position in the stream
  of random bytes is the one before the call. A batch of 101 items in entries of at
  most 20 is refused in this way.
\<close>

theorem generateBatch_tool_limits:
  assumes "sum_list (map b_count requests) > 100 \<or> (\<exists>req \<in> set requests. b_count req > 20)"
  shows "generateBatch_tool rnd now pos requests =
     (BatchSecurityValidationFailed
        ((if sum_list (map b_count requests) > 100
          then [''Total batch items cannot exceed 100 for resource protection''] else [])
         @ (if \<exists>req \<in> set requests. b_count req > 20
            then [''Individual request count cannot exceed 20 for resource protection''] else [])),
      pos)"
proof -
  let ?batch = "map (\<lambda>req. \<lparr> b_type = b_type req, b_count = b_count req,
                         b_options = Some (default_to no_options (b_options req)) \<rparr>) requests"
  have c: "map b_count ?batch = map b_count requests" by (simp add: comp_def)
  have e: "(\<exists>req \<in> set ?batch. b_count req > 20) = (\<exists>req \<in> set requests. b_count req > 20)"
    by auto
  have a: "(\<forall>req \<in> set ?batch. b_count req \<le> 20) = (\<forall>req \<in> set requests. b_count req \<le> 20)"
    by auto
  have "\<not> (sum_list (map b_count requests) \<le> 100 \<and> (\<forall>req \<in> set requests. b_count req \<le> 20))"
    using assms by (auto simp: not_le)
  then show ?thesis
    unfolding generateBatch_tool_def Let_def validateBatchSecurity_errors c e a
    by simp
qed

theorem generateBatch_tool_limits_witness:
  "sum_list (map b_count over_limit_requests) = 101
   \<and> generateBatch_tool sample_stream sample_clock 0 over_limit_requests =
       (BatchSecurityValidationFailed
          [''Total batch items cannot exceed 100 for resource protection''], 0)"
proof -
  have s: "sum_list (map b_count over_limit_requests) = 101"
    by (simp add: over_limit_requests_def)
  have n: "\<not> (\<exists>req \<in> set over_limit_requests. b_count req > 20)"
    by (simp add: over_limit_requests_def)
  have h: "sum_list (map b_count over_limit_requests) > 100
     \<or> (\<exists>req \<in> set over_limit_requests. b_count req > 20)"
    using s by simp
  from generateBatch_tool_limits [OF h, of sample_stream sample_clock 0] s n
  show ?thesis by simp
qed

section \<open>Requests of the same type in a batch\<close>












end
